theory Spec2Isabelle
  imports Main "HOL-Library.AList"
begin

unbundle bit_operations_syntax

section \<open>Host values shared by the models\<close>

text \<open>
  The runtime is JavaScript. Strings are modelled as HOL strings (lists of 8-bit
  characters; code units above 255 are outside the model). A thrown JavaScript value is
  either falsy, or truthy with an optional \<open>message\<close> property.
\<close>

datatype thrown = ThrownFalsy | ThrownTruthy "string option"

text \<open>Reading a property of a window handle either yields a value or throws.\<close>

datatype 'a access = Reads 'a | Throws thrown

subsection \<open>Regular expressions of the host\<close>

text \<open>
  A JavaScript regular expression is modelled by the text its \<open>toString()\<close> returns
  together with the meaning of that text: whether it is anchored with \<open>^\<close> at the
  start, a body, and whether it is anchored with \<open>$\<close> at the end. The body is a classical
  regular expression; matching is by Brzozowski derivatives, so it is executable.
\<close>

datatype rx = Eps | Lit char | Dot | Cat rx rx | Alt rx rx | Star rx | Never

fun nullable :: "rx \<Rightarrow> bool" where
  "nullable Eps = True"
| "nullable (Lit c) = False"
| "nullable Dot = False"
| "nullable (Cat r s) = (nullable r \<and> nullable s)"
| "nullable (Alt r s) = (nullable r \<or> nullable s)"
| "nullable (Star r) = True"
| "nullable Never = False"

fun deriv :: "char \<Rightarrow> rx \<Rightarrow> rx" where
  "deriv c Eps = Never"
| "deriv c (Lit d) = (if c = d then Eps else Never)"
| "deriv c Dot = Eps"
| "deriv c (Cat r s) =
     (if nullable r then Alt (Cat (deriv c r) s) (deriv c s) else Cat (deriv c r) s)"
| "deriv c (Alt r s) = Alt (deriv c r) (deriv c s)"
| "deriv c (Star r) = Cat (deriv c r) (Star r)"
| "deriv c Never = Never"

fun accepts :: "rx \<Rightarrow> string \<Rightarrow> bool" where
  "accepts r [] = nullable r"
| "accepts r (c # cs) = accepts (deriv c r) cs"

text \<open>The literal text \<open>s\<close> as a regular expression.\<close>

fun lits :: "string \<Rightarrow> rx" where
  "lits [] = Eps"
| "lits (c # cs) = Cat (Lit c) (lits cs)"

datatype regex = Regex (rx_text: string) (rx_bol: bool) (rx_body: rx) (rx_eol: bool)

text \<open>
  \<open>origin.match(pattern)\<close> is truthy when some substring of the origin is matched by the
  body, starting at index 0 when the pattern is anchored at the start and ending at the
  end of the string when it is anchored at the end.
\<close>

definition regex_test :: "regex \<Rightarrow> string \<Rightarrow> bool" where
  "regex_test r s =
     list_ex (\<lambda>i. list_ex (\<lambda>n. accepts (rx_body r) (take n (drop i s)))
                     (if rx_eol r then [length s - i] else [0 ..< length s - i + 1]))
             (if rx_bol r then [0] else [0 ..< length s + 1])"

section \<open>Window-identity utilities\<close>

subsection \<open>Origin patterns and \<open>matchDomain\<close>\<close>

text \<open>
  An origin pattern is a string, a regular expression, or a list of patterns. The
  function \<open>matchDomain(pattern, origin)\<close> also accepts a regular expression or a list as
  its second argument, so both arguments have the same type.
\<close>

datatype domain = DStr string | DRegex regex | DList "domain list"

definition WILDCARD :: string where
  "WILDCARD = ''*''"

text \<open>
  \<open>JSON.stringify(pattern) === JSON.stringify(origin)\<close> for two arrays: the host prints a
  string as its quoted, escaped text (an injective encoding), a regular expression as
  \<open>{}\<close> and an array as the bracketed list of its elements. So the two texts are equal
  exactly when the values agree up to the identity of the regular expressions in them.
\<close>

fun json_same :: "domain \<Rightarrow> domain \<Rightarrow> bool" and json_same_list :: "domain list \<Rightarrow> domain list \<Rightarrow> bool" where
  "json_same (DStr a) (DStr b) = (a = b)"
| "json_same (DRegex r) (DRegex r') = True"
| "json_same (DList xs) (DList ys) = json_same_list xs ys"
| "json_same (DStr a) (DRegex r) = False"
| "json_same (DStr a) (DList ys) = False"
| "json_same (DRegex r) (DStr b) = False"
| "json_same (DRegex r) (DList ys) = False"
| "json_same (DList xs) (DStr b) = False"
| "json_same (DList xs) (DRegex r) = False"
| "json_same_list [] [] = True"
| "json_same_list (x # xs) (y # ys) = (json_same x y \<and> json_same_list xs ys)"
| "json_same_list [] (y # ys) = False"
| "json_same_list (x # xs) [] = False"

text \<open>
  \<open>matchDomain\<close>, branch by branch: a string pattern against a string origin is the
  wildcard or equality, and is false against a regular expression or an array; a regular
  expression pattern compares texts with a regular expression, is false against an array
  and tests a string; an array pattern compares JSON texts with an array, is false
  against a regular expression, and matches a string when some element does.
\<close>

fun matchDomain :: "domain \<Rightarrow> domain \<Rightarrow> bool" where
  "matchDomain (DStr p) (DStr orig) = (p = WILDCARD \<or> orig = p)"
| "matchDomain (DStr p) (DRegex r) = False"
| "matchDomain (DStr p) (DList os) = False"
| "matchDomain (DRegex r) (DRegex r') = (rx_text r = rx_text r')"
| "matchDomain (DRegex r) (DList os) = False"
| "matchDomain (DRegex r) (DStr orig) = regex_test r orig"
| "matchDomain (DList ps) (DList os) = json_same (DList ps) (DList os)"
| "matchDomain (DList ps) (DRegex r) = False"
| "matchDomain (DList ps) (DStr orig) = list_ex (\<lambda>p. matchDomain p (DStr orig)) ps"

text \<open>The regular expression \<open>/^https:\/\/a\./\<close> of the specification's example.\<close>

definition rx_https_a :: regex where
  "rx_https_a =
     Regex (''/^https:'' @ [CHR 0x5C] @ ''/'' @ [CHR 0x5C] @ ''/a'' @ [CHR 0x5C] @ ''./'')
       True (lits ''https://a.'') False"

subsection \<open>Window handles, \<open>isSameDomain\<close> and \<open>isWindowClosed\<close>\<close>

text \<open>
  A window handle is an opaque host object; the model records what each property read
  that the utilities perform does: it yields a value or it throws (a cross-origin access
  error). \<open>None\<close> for a location or a mock domain is a falsy value, an empty string is
  falsy too. \<open>win_is_current\<close> is the comparison \<open>win === window\<close>, which the code
  guards with a \<open>try\<close>; \<open>win_parent\<close> and \<open>win_top\<close> are the truthiness of the two
  properties.
\<close>

record location =
  loc_protocol :: "string access"
  loc_host :: "string access"

record window =
  win_is_current :: "bool access"
  win_closed :: "bool access"
  win_location_enumerable :: "bool option access"
  win_location :: "location option access"
  win_mockDomain :: "string option access"
  win_mockclosed :: "bool access"
  win_parent :: "bool access"
  win_top :: "bool access"

definition MOCK_PROTOCOL :: string where
  "MOCK_PROTOCOL = ''mock:''"

definition FILE_PROTOCOL :: string where
  "FILE_PROTOCOL = ''file:''"

text \<open>\<open>getActualDomain(win)\<close>; \<open>None\<close> when it throws.\<close>

definition getActualDomain :: "window \<Rightarrow> string option" where
  "getActualDomain win =
     (case win_location win of
        Throws e \<Rightarrow> None
      | Reads None \<Rightarrow> None
      | Reads (Some loc) \<Rightarrow>
          (case loc_protocol loc of
             Throws e \<Rightarrow> None
           | Reads protocol \<Rightarrow>
               if protocol = [] then None
               else if protocol = FILE_PROTOCOL then Some ''file://''
               else (case loc_host loc of
                       Throws e \<Rightarrow> None
                     | Reads host \<Rightarrow>
                         if host = [] then None else Some (protocol @ ''//'' @ host))))"

text \<open>
  \<open>getDomain(win)\<close>: the mock domain when the window has one that starts with
  \<open>mock:\<close>, the actual domain otherwise; \<open>None\<close> when a read throws.
\<close>

definition getDomain :: "window \<Rightarrow> string option" where
  "getDomain win =
     (case getActualDomain win of
        None \<Rightarrow> None
      | Some d \<Rightarrow>
          (case win_mockDomain win of
             Throws e \<Rightarrow> None
           | Reads None \<Rightarrow> Some d
           | Reads (Some mock) \<Rightarrow>
               if mock \<noteq> [] \<and> take (length MOCK_PROTOCOL) mock = MOCK_PROTOCOL
               then Some mock else Some d))"

text \<open>
  \<open>isActuallySameDomain(win)\<close>, with \<open>cur\<close> the current window: false when the
  descriptor of \<open>location\<close> is not enumerable, true when both actual domains can be read
  and agree, false otherwise. Every throw is caught.
\<close>

definition isActuallySameDomain :: "window \<Rightarrow> window \<Rightarrow> bool" where
  "isActuallySameDomain cur win =
     (if win_location_enumerable win = Reads (Some False) then False
      else (case getActualDomain win of
              None \<Rightarrow> False
            | Some d \<Rightarrow>
                (case getActualDomain cur of
                   None \<Rightarrow> False
                 | Some d' \<Rightarrow> d = d')))"

definition isSameDomain :: "window \<Rightarrow> window \<Rightarrow> bool" where
  "isSameDomain cur win =
     (if \<not> isActuallySameDomain cur win then False
      else (case getDomain cur of
              None \<Rightarrow> False
            | Some d \<Rightarrow>
                (case getDomain win of
                   None \<Rightarrow> False
                 | Some d' \<Rightarrow> d = d')))"

text \<open>The message of the rejection that Internet Explorer raises for a live window.\<close>

definition CALL_REJECTED :: string where
  "CALL_REJECTED = ''Call was rejected by callee.'' @ [CHR 0x0D, CHR 0x0A]"

text \<open>
  \<open>isWindowClosed(win, allowMock)\<close>, with \<open>cur\<close> the current window and \<open>None\<close> a null
  handle. The steps are those of the source, in its order: the comparison with the
  current window, the null test, the \<open>closed\<close> flag (whose catch clause returns
  \<open>!err || err.message !== CALL_REJECTED\<close>), the mock flag of a same-domain window, and
  the parent and top properties.
\<close>

definition isWindowClosed :: "window \<Rightarrow> bool \<Rightarrow> window option \<Rightarrow> bool" where
  "isWindowClosed cur allowMock win =
     (case win of
        None \<Rightarrow> True
      | Some w \<Rightarrow>
          (case win_is_current w of
             Throws e \<Rightarrow> True
           | Reads True \<Rightarrow> False
           | Reads False \<Rightarrow>
               (case win_closed w of
                  Throws ThrownFalsy \<Rightarrow> True
                | Throws (ThrownTruthy msg) \<Rightarrow> msg \<noteq> Some CALL_REJECTED
                | Reads True \<Rightarrow> True
                | Reads False \<Rightarrow>
                    if allowMock \<and> isSameDomain cur w \<and> win_mockclosed w = Reads True
                    then True
                    else (case win_parent w of
                            Throws e \<Rightarrow> False
                          | Reads False \<Rightarrow> True
                          | Reads True \<Rightarrow>
                              (case win_top w of
                                 Throws e \<Rightarrow> False
                               | Reads False \<Rightarrow> True
                               | Reads True \<Rightarrow> False)))))"

text \<open>A page at \<open>https://a.example\<close> as the current window.\<close>

definition page_a :: window where
  "page_a =
     \<lparr> win_is_current = Reads True, win_closed = Reads False,
       win_location_enumerable = Reads (Some True),
       win_location = Reads (Some \<lparr> loc_protocol = Reads ''https:'', loc_host = Reads ''a.example'' \<rparr>),
       win_mockDomain = Reads None, win_mockclosed = Reads False,
       win_parent = Reads True, win_top = Reads True \<rparr>"

text \<open>A cross-origin popup none of whose properties can be read.\<close>

definition rejecting_window :: "thrown \<Rightarrow> window" where
  "rejecting_window t =
     \<lparr> win_is_current = Reads False, win_closed = Throws t,
       win_location_enumerable = Throws t, win_location = Throws t,
       win_mockDomain = Throws t, win_mockclosed = Throws t,
       win_parent = Throws t, win_top = Throws t \<rparr>"

section \<open>Child-window-name codec\<close>

subsection \<open>Name normalisation\<close>

text \<open>
  From here on a HOL string holds the UTF-8 bytes of a JavaScript string: an ASCII
  character is one \<open>char\<close>, any other character is a sequence of \<open>char\<close>s of value 128
  or more. The character class \<open>[^a-z0-9A-Z]\<close> then contains every byte of a non-ASCII
  character, so runs of such characters correspond.
\<close>

definition alnum :: "char \<Rightarrow> bool" where
  "alnum c =
     (let n = (of_char c :: nat)
      in (97 \<le> n \<and> n \<le> 122) \<or> (48 \<le> n \<and> n \<le> 57) \<or> (65 \<le> n \<and> n \<le> 90))"

text \<open>
  \<open>str.replace(/^[^a-z0-9A-Z]+|[^a-z0-9A-Z]+$/g, '')\<close>: the leading run and the
  trailing run of non-alphanumeric characters are removed.
\<close>

definition strip_edges :: "string \<Rightarrow> string" where
  "strip_edges s = rev (dropWhile (\<lambda>c. \<not> alnum c) (rev (dropWhile (\<lambda>c. \<not> alnum c) s)))"

text \<open>
  \<open>str.replace(/[^a-z0-9A-Z]+/g, '_')\<close>: every maximal run of non-alphanumeric
  characters becomes one underscore.
\<close>

function collapse :: "string \<Rightarrow> string" where
  "collapse [] = []"
| "collapse (c # cs) =
     (if alnum c then c # collapse cs
      else CHR ''_'' # collapse (dropWhile (\<lambda>c. \<not> alnum c) cs))"
  by pat_completeness auto
termination
  by (relation "measure length") (auto simp: less_Suc_eq_le length_dropWhile_le)

text \<open>\<open>normalize(str)\<close> is \<open>str && str.replace(...).replace(...)\<close>: a falsy (empty) string is returned as it is.\<close>

definition normalize_str :: "string \<Rightarrow> string" where
  "normalize_str str = (if str = [] then str else collapse (strip_edges str))"

subsection \<open>Base32 (the bundled hi-base32 module)\<close>

definition BASE32_ENCODE_CHAR :: string where
  "BASE32_ENCODE_CHAR = ''ABCDEFGHIJKLMNOPQRSTUVWXYZ234567''"

text \<open>
  \<open>BASE32_ENCODE_CHAR[n]\<close> appended to a string: an index outside the table yields
  \<open>undefined\<close>, which string concatenation prints.
\<close>

definition enc_char :: "nat \<Rightarrow> string" where
  "enc_char n = (if n < 32 then [BASE32_ENCODE_CHAR ! n] else ''undefined'')"

text \<open>One full block of five bytes, and the last block of one to four bytes with its padding.\<close>

definition block5 :: "nat \<Rightarrow> nat \<Rightarrow> nat \<Rightarrow> nat \<Rightarrow> nat \<Rightarrow> string" where
  "block5 v1 v2 v3 v4 v5 =
     enc_char (drop_bit 3 v1)
     @ enc_char (31 AND (push_bit 2 v1 OR drop_bit 6 v2))
     @ enc_char (drop_bit 1 v2 AND 31)
     @ enc_char (31 AND (push_bit 4 v2 OR drop_bit 4 v3))
     @ enc_char (31 AND (push_bit 1 v3 OR drop_bit 7 v4))
     @ enc_char (drop_bit 2 v4 AND 31)
     @ enc_char (31 AND (push_bit 3 v4 OR drop_bit 5 v5))
     @ enc_char (31 AND v5)"

definition block_rest :: "nat list \<Rightarrow> string" where
  "block_rest bs =
     (case bs of
        [v1] \<Rightarrow> enc_char (drop_bit 3 v1) @ enc_char (push_bit 2 v1 AND 31) @ ''======''
      | [v1, v2] \<Rightarrow>
          enc_char (drop_bit 3 v1)
          @ enc_char (31 AND (push_bit 2 v1 OR drop_bit 6 v2))
          @ enc_char (drop_bit 1 v2 AND 31)
          @ enc_char (push_bit 4 v2 AND 31) @ ''====''
      | [v1, v2, v3] \<Rightarrow>
          enc_char (drop_bit 3 v1)
          @ enc_char (31 AND (push_bit 2 v1 OR drop_bit 6 v2))
          @ enc_char (drop_bit 1 v2 AND 31)
          @ enc_char (31 AND (push_bit 4 v2 OR drop_bit 4 v3))
          @ enc_char (push_bit 1 v3 AND 31) @ ''===''
      | [v1, v2, v3, v4] \<Rightarrow>
          enc_char (drop_bit 3 v1)
          @ enc_char (31 AND (push_bit 2 v1 OR drop_bit 6 v2))
          @ enc_char (drop_bit 1 v2 AND 31)
          @ enc_char (31 AND (push_bit 4 v2 OR drop_bit 4 v3))
          @ enc_char (31 AND (push_bit 1 v3 OR drop_bit 7 v4))
          @ enc_char (drop_bit 2 v4 AND 31)
          @ enc_char (push_bit 3 v4 AND 31) @ ''=''
      | _ \<Rightarrow> [])"

text \<open>
  \<open>encodeUtf8(str)\<close> turns the string into its UTF-8 bytes, five at a time (carrying the
  bytes of a character that crosses a block over to the next block), and prints each
  block. On the UTF-8 bytes of the string this is \<open>encodeBytes\<close>.
\<close>

fun encodeBytes :: "nat list \<Rightarrow> string" where
  "encodeBytes (v1 # v2 # v3 # v4 # v5 # rest) = block5 v1 v2 v3 v4 v5 @ encodeBytes rest"
| "encodeBytes bs = block_rest bs"

definition base32_encode :: "string \<Rightarrow> string" where
  "base32_encode str = encodeBytes (map of_char str)"

text \<open>
  \<open>BASE32_DECODE_CHAR[c]\<close> inside a bitwise expression. The table maps \<open>A\<close> .. \<open>Z\<close>
  (codes 65 .. 90) to 0 .. 25 and \<open>2\<close> .. \<open>7\<close> (codes 50 .. 55) to 26 .. 31. A character
  outside the table yields \<open>undefined\<close>, which the bitwise operators read as 0. \<open>charAt\<close>
  past the end of the string yields the empty string, which is outside the table too.
\<close>

definition dec_val :: "char \<Rightarrow> nat" where
  "dec_val c =
     (let n = (of_char c :: nat)
      in if 65 \<le> n \<and> n \<le> 90 then n - 65 else if 50 \<le> n \<and> n \<le> 55 then n - 24 else 0)"

definition charAt :: "string \<Rightarrow> nat \<Rightarrow> nat" where
  "charAt s i = (if i < length s then dec_val (s ! i) else 0)"

definition dbyte1 :: "nat \<Rightarrow> nat \<Rightarrow> nat" where
  "dbyte1 v1 v2 = 255 AND (push_bit 3 v1 OR drop_bit 2 v2)"

definition dbyte2 :: "nat \<Rightarrow> nat \<Rightarrow> nat \<Rightarrow> nat" where
  "dbyte2 v2 v3 v4 = 255 AND (push_bit 6 v2 OR push_bit 1 v3 OR drop_bit 4 v4)"

definition dbyte3 :: "nat \<Rightarrow> nat \<Rightarrow> nat" where
  "dbyte3 v4 v5 = 255 AND (push_bit 4 v4 OR drop_bit 1 v5)"

definition dbyte4 :: "nat \<Rightarrow> nat \<Rightarrow> nat \<Rightarrow> nat" where
  "dbyte4 v5 v6 v7 = 255 AND (push_bit 7 v5 OR push_bit 2 v6 OR drop_bit 3 v7)"

definition dbyte5 :: "nat \<Rightarrow> nat \<Rightarrow> nat" where
  "dbyte5 v7 v8 = 255 AND (push_bit 5 v7 OR v8)"

text \<open>
  \<open>decodeAsBytes\<close> after the padding is removed: blocks of eight characters, then a
  remainder of 2, 4, 5 or 7 characters; a remainder of any other length adds nothing.
\<close>

fun decodeBlocks :: "string \<Rightarrow> nat list" where
  "decodeBlocks (c1 # c2 # c3 # c4 # c5 # c6 # c7 # c8 # rest) =
     (let v1 = dec_val c1; v2 = dec_val c2; v3 = dec_val c3; v4 = dec_val c4;
          v5 = dec_val c5; v6 = dec_val c6; v7 = dec_val c7; v8 = dec_val c8
      in [dbyte1 v1 v2, dbyte2 v2 v3 v4, dbyte3 v4 v5, dbyte4 v5 v6 v7, dbyte5 v7 v8]
         @ decodeBlocks rest)"
| "decodeBlocks s =
     (let v1 = charAt s 0; v2 = charAt s 1; v3 = charAt s 2; v4 = charAt s 3;
          v5 = charAt s 4; v6 = charAt s 5; v7 = charAt s 6
      in if length s = 2 then [dbyte1 v1 v2]
         else if length s = 4 then [dbyte1 v1 v2, dbyte2 v2 v3 v4]
         else if length s = 5 then [dbyte1 v1 v2, dbyte2 v2 v3 v4, dbyte3 v4 v5]
         else if length s = 7 then [dbyte1 v1 v2, dbyte2 v2 v3 v4, dbyte3 v4 v5, dbyte4 v5 v6 v7]
         else [])"

definition decodeAsBytes :: "string \<Rightarrow> nat list" where
  "decodeAsBytes base32Str = decodeBlocks (filter (\<lambda>c. c \<noteq> CHR ''='') base32Str)"

text \<open>The UTF-8 bytes of a code point.\<close>

definition utf8_of_code :: "nat \<Rightarrow> nat list" where
  "utf8_of_code c =
     (if c < 128 then [c]
      else if c < 2048 then [192 OR drop_bit 6 c, 128 OR (63 AND c)]
      else if c < 65536 then
        [224 OR drop_bit 12 c, 128 OR (drop_bit 6 c AND 63), 128 OR (63 AND c)]
      else [240 OR drop_bit 18 c, 128 OR (drop_bit 12 c AND 63),
            128 OR (drop_bit 6 c AND 63), 128 OR (63 AND c)])"

text \<open>
  The inner loop of \<open>toUtf8String\<close>: \<open>n\<close> following bytes are folded into the code point.
  A following byte outside 128..191 throws (\<open>None\<close>); a read past the end of the array
  yields \<open>undefined\<close>, which passes both comparisons and adds no bits.
\<close>

fun following :: "nat \<Rightarrow> nat \<Rightarrow> nat list \<Rightarrow> (nat \<times> nat list) option" where
  "following 0 c bs = Some (c, bs)"
| "following (Suc n) c [] = following n (push_bit 6 c) []"
| "following (Suc n) c (b # bs) =
     (if b < 128 \<or> b > 191 then None else following n (push_bit 6 c + (63 AND b)) bs)"

text \<open>
  The outer loop of \<open>toUtf8String\<close>, as the list of code points it appends: a byte up to
  127 is a character; a byte in 192..223 starts a two-byte sequence; any other byte up
  to 239 a three-byte sequence; a byte up to 247 a four-byte sequence; a larger byte
  throws, as does a surrogate or a code point above 1114111.
\<close>

function toCodePoints :: "nat list \<Rightarrow> nat list option" where
  "toCodePoints [] = Some []"
| "toCodePoints (b # bs) =
     (if b \<le> 127 then map_option ((#) b) (toCodePoints bs)
      else if 247 < b then None
      else (case (if b > 191 \<and> b \<le> 223 then following 1 (31 AND b) bs
                  else if b \<le> 239 then following 2 (15 AND b) bs
                  else following 3 (7 AND b) bs) of
              None \<Rightarrow> None
            | Some (c, rest) \<Rightarrow>
                if (55296 \<le> c \<and> c \<le> 57343) \<or> c > 1114111 then None
                else map_option ((#) c) (toCodePoints rest)))"
  by pat_completeness auto
termination
proof (relation "measure length")
  have shorter: "length bs' \<le> length bs" if "following n c bs = Some (c', bs')"
    for n c bs c' and bs' :: "nat list"
    using that by (induction n c bs rule: following.induct) (auto split: if_splits)
  fix b :: nat and bs x2 x y
  assume "(if 191 < b \<and> b \<le> 223 then following 1 (31 AND b) bs
           else if b \<le> 239 then following 2 (15 AND b) bs else following 3 (7 AND b) bs) = Some x2"
    and "(x, y) = x2"
  then have "length y \<le> length bs"
    by (auto split: if_splits dest: shorter)
  then show "(y, b # bs) \<in> measure length"
    by simp
qed auto

text \<open>The string that \<open>toUtf8String\<close> returns, as its UTF-8 bytes; \<open>None\<close> when it throws.\<close>

definition toUtf8String :: "nat list \<Rightarrow> string option" where
  "toUtf8String bytes =
     map_option (\<lambda>cs. map char_of (concat (map utf8_of_code cs))) (toCodePoints bytes)"

definition base32_decode :: "string \<Rightarrow> string option" where
  "base32_decode base32Str = toUtf8String (decodeAsBytes base32Str)"

subsection \<open>JSON values of the host\<close>

text \<open>
  \<open>JSON.stringify\<close> and \<open>JSON.parse\<close> belong to the host, not to the repository. They
  are modelled on JSON values whose numbers are integers; an object is the list of its
  properties in the order in which the host enumerates them, with distinct keys.
  A number literal with a fraction or an exponent is outside the model (the parser
  rejects it), and so is an escape that denotes half of a surrogate pair.
\<close>

datatype json = JNull | JBool bool | JNum int | JStr string | JArr "json list"
  | JObj "(string \<times> json) list"

definition dq :: char where
  "dq = CHR 0x22"

definition bsl :: char where
  "bsl = CHR 0x5C"

definition digit_char :: "nat \<Rightarrow> char" where
  "digit_char n = ''0123456789abcdef'' ! n"

function digits :: "nat \<Rightarrow> string" where
  "digits n = (if n < 10 then [digit_char n] else digits (n div 10) @ [digit_char (n mod 10)])"
  by pat_completeness auto
termination
  by (relation "measure id") auto

declare digits.simps [simp del]

definition escape_char :: "char \<Rightarrow> string" where
  "escape_char c =
     (if c = dq then [bsl, dq]
      else if c = bsl then [bsl, bsl]
      else if c = CHR 0x08 then [bsl, CHR ''b'']
      else if c = CHR 0x0C then [bsl, CHR ''f'']
      else if c = CHR 0x0A then [bsl, CHR ''n'']
      else if c = CHR 0x0D then [bsl, CHR ''r'']
      else if c = CHR 0x09 then [bsl, CHR ''t'']
      else if (of_char c :: nat) < 32 then
        [bsl, CHR ''u'', CHR ''0'', CHR ''0'',
         digit_char (of_char c div 16), digit_char (of_char c mod 16)]
      else [c])"

definition quote :: "string \<Rightarrow> string" where
  "quote s = [dq] @ concat (map escape_char s) @ [dq]"

text \<open>\<open>Array.prototype.join\<close>.\<close>

fun js_join :: "string \<Rightarrow> string list \<Rightarrow> string" where
  "js_join sep [] = []"
| "js_join sep [x] = x"
| "js_join sep (x # y # ys) = x @ sep @ js_join sep (y # ys)"

fun JSON_stringify :: "json \<Rightarrow> string" where
  "JSON_stringify JNull = ''null''"
| "JSON_stringify (JBool b) = (if b then ''true'' else ''false'')"
| "JSON_stringify (JNum n) = (if n < 0 then ''-'' @ digits (nat (- n)) else digits (nat n))"
| "JSON_stringify (JStr s) = quote s"
| "JSON_stringify (JArr xs) = ''['' @ js_join '','' (map JSON_stringify xs) @ '']''"
| "JSON_stringify (JObj kvs) =
     ''{'' @ js_join '','' (map (\<lambda>kv. quote (fst kv) @ '':'' @ JSON_stringify (snd kv)) kvs) @ ''}''"

definition is_ws :: "char \<Rightarrow> bool" where
  "is_ws c = (c = CHR '' '' \<or> c = CHR 0x09 \<or> c = CHR 0x0A \<or> c = CHR 0x0D)"

definition skip_ws :: "string \<Rightarrow> string" where
  "skip_ws s = dropWhile is_ws s"

definition hex_val :: "char \<Rightarrow> nat option" where
  "hex_val c =
     (let n = (of_char c :: nat)
      in if 48 \<le> n \<and> n \<le> 57 then Some (n - 48)
         else if 97 \<le> n \<and> n \<le> 102 then Some (n - 87)
         else if 65 \<le> n \<and> n \<le> 70 then Some (n - 55)
         else None)"

definition is_digit :: "char \<Rightarrow> bool" where
  "is_digit c = (48 \<le> (of_char c :: nat) \<and> (of_char c :: nat) \<le> 57)"

definition unescape :: "char \<Rightarrow> char option" where
  "unescape e =
     (if e = dq then Some dq
      else if e = bsl then Some bsl
      else if e = CHR ''/'' then Some (CHR ''/'')
      else if e = CHR ''b'' then Some (CHR 0x08)
      else if e = CHR ''f'' then Some (CHR 0x0C)
      else if e = CHR ''n'' then Some (CHR 0x0A)
      else if e = CHR ''r'' then Some (CHR 0x0D)
      else if e = CHR ''t'' then Some (CHR 0x09)
      else None)"

text \<open>The characters of a string literal after its opening quote, and the text after it.\<close>

fun parse_chars :: "string \<Rightarrow> (string \<times> string) option" where
  "parse_chars [] = None"
| "parse_chars (c # cs) =
     (if c = dq then Some ([], cs)
      else if c = bsl then
        (case cs of
           [] \<Rightarrow> None
         | e # r \<Rightarrow>
             if e = CHR ''u'' then
               (case r of
                  h1 # h2 # h3 # h4 # r' \<Rightarrow>
                    (case (hex_val h1, hex_val h2, hex_val h3, hex_val h4) of
                       (Some a, Some b, Some c', Some d) \<Rightarrow>
                         (let code = ((a * 16 + b) * 16 + c') * 16 + d
                          in if 55296 \<le> code \<and> code \<le> 57343 then None
                             else map_option (\<lambda>(t, u). (map char_of (utf8_of_code code) @ t, u))
                                    (parse_chars r'))
                     | _ \<Rightarrow> None)
                | _ \<Rightarrow> None)
             else
               (case unescape e of
                  None \<Rightarrow> None
                | Some x \<Rightarrow> map_option (\<lambda>(t, u). (x # t, u)) (parse_chars r)))
      else if (of_char c :: nat) < 32 then None
      else map_option (\<lambda>(t, u). (c # t, u)) (parse_chars cs))"

definition digits_value :: "string \<Rightarrow> nat" where
  "digits_value ds = foldl (\<lambda>acc c. acc * 10 + (of_char c - 48)) 0 ds"

text \<open>An integer literal: an optional minus sign, then 0 or digits that do not start with 0.\<close>

definition parse_int :: "string \<Rightarrow> (int \<times> string) option" where
  "parse_int s =
     (let neg = (s \<noteq> [] \<and> hd s = CHR ''-'');
          body = (if neg then tl s else s);
          ds = takeWhile is_digit body;
          rest = dropWhile is_digit body
      in if ds = [] \<or> (length ds > 1 \<and> hd ds = CHR ''0'') then None
         else if rest \<noteq> [] \<and> (hd rest = CHR ''.'' \<or> hd rest = CHR ''e'' \<or> hd rest = CHR ''E'')
           then None
         else Some (if neg then - int (digits_value ds) else int (digits_value ds), rest))"

text \<open>
  The assignment \<open>obj[k] = v\<close>: an existing property keeps its place, a new one is added
  last.
\<close>

fun obj_set :: "(string \<times> json) list \<Rightarrow> string \<Rightarrow> json \<Rightarrow> (string \<times> json) list" where
  "obj_set [] k v = [(k, v)]"
| "obj_set ((k', v') # kvs) k v = (if k' = k then (k, v) # kvs else (k', v') # obj_set kvs k v)"

text \<open>
  A recursive-descent parser. The first argument bounds the nesting of the calls; the
  length of the text is always enough. A repeated key keeps its first place and its last
  value.
\<close>

fun parse_json :: "nat \<Rightarrow> string \<Rightarrow> (json \<times> string) option"
  and parse_elements :: "nat \<Rightarrow> string \<Rightarrow> (json list \<times> string) option"
  and parse_members :: "nat \<Rightarrow> string \<Rightarrow> ((string \<times> json) list \<times> string) option" where
  "parse_json 0 s = None"
| "parse_json (Suc n) s =
     (case skip_ws s of
        [] \<Rightarrow> None
      | c # r \<Rightarrow>
          if take 4 (c # r) = ''null'' then Some (JNull, drop 4 (c # r))
          else if take 4 (c # r) = ''true'' then Some (JBool True, drop 4 (c # r))
          else if take 5 (c # r) = ''false'' then Some (JBool False, drop 5 (c # r))
          else if c = dq then map_option (\<lambda>(t, u). (JStr t, u)) (parse_chars r)
          else if c = CHR ''['' then
            (case skip_ws r of
               [] \<Rightarrow> None
             | d # r' \<Rightarrow>
                 if d = CHR '']'' then Some (JArr [], r')
                 else map_option (\<lambda>(vs, u). (JArr vs, u)) (parse_elements n (d # r')))
          else if c = CHR ''{'' then
            (case skip_ws r of
               [] \<Rightarrow> None
             | d # r' \<Rightarrow>
                 if d = CHR ''}'' then Some (JObj [], r')
                 else map_option
                        (\<lambda>(ms, u). (JObj (foldl (\<lambda>acc kv. obj_set acc (fst kv) (snd kv)) [] ms), u))
                        (parse_members n (d # r')))
          else map_option (\<lambda>(i, u). (JNum i, u)) (parse_int (c # r)))"
| "parse_elements 0 s = None"
| "parse_elements (Suc n) s =
     (case parse_json n s of
        None \<Rightarrow> None
      | Some (v, r) \<Rightarrow>
          (case skip_ws r of
             [] \<Rightarrow> None
           | c # r' \<Rightarrow>
               if c = CHR '','' then map_option (\<lambda>(vs, u). (v # vs, u)) (parse_elements n r')
               else if c = CHR '']'' then Some ([v], r')
               else None))"
| "parse_members 0 s = None"
| "parse_members (Suc n) s =
     (case skip_ws s of
        [] \<Rightarrow> None
      | q # r \<Rightarrow>
          if q \<noteq> dq then None
          else (case parse_chars r of
                  None \<Rightarrow> None
                | Some (k, r1) \<Rightarrow>
                    (case skip_ws r1 of
                       [] \<Rightarrow> None
                     | c # r2 \<Rightarrow>
                         if c \<noteq> CHR '':'' then None
                         else (case parse_json n r2 of
                                 None \<Rightarrow> None
                               | Some (v, r3) \<Rightarrow>
                                   (case skip_ws r3 of
                                      [] \<Rightarrow> None
                                    | c' # r4 \<Rightarrow>
                                        if c' = CHR '','' then
                                          map_option (\<lambda>(ms, u). ((k, v) # ms, u)) (parse_members n r4)
                                        else if c' = CHR ''}'' then Some ([(k, v)], r4)
                                        else None)))))"

text \<open>\<open>JSON.parse(s)\<close>; \<open>None\<close> when it throws.\<close>

definition JSON_parse :: "string \<Rightarrow> json option" where
  "JSON_parse s =
     (case parse_json (Suc (length s)) s of
        None \<Rightarrow> None
      | Some (v, r) \<Rightarrow> if skip_ws r = [] then Some v else None)"

subsection \<open>\<open>buildChildWindowName\<close> and \<open>getComponentMeta\<close>\<close>

datatype error = Error string | TypeError string

definition XCOMPONENT :: string where
  "XCOMPONENT = ''xcomponent''"

text \<open>
  Case conversion of the Base32 text: ASCII letters change case, every other byte is
  kept.
\<close>

definition lower_char :: "char \<Rightarrow> char" where
  "lower_char c =
     (case map_of (zip ''ABCDEFGHIJKLMNOPQRSTUVWXYZ'' ''abcdefghijklmnopqrstuvwxyz'') c of
        Some d \<Rightarrow> d
      | None \<Rightarrow> c)"

definition upper_char :: "char \<Rightarrow> char" where
  "upper_char c =
     (case map_of (zip ''abcdefghijklmnopqrstuvwxyz'' ''ABCDEFGHIJKLMNOPQRSTUVWXYZ'') c of
        Some d \<Rightarrow> d
      | None \<Rightarrow> c)"

definition toLowerCase :: "string \<Rightarrow> string" where
  "toLowerCase s = map lower_char s"

definition toUpperCase :: "string \<Rightarrow> string" where
  "toUpperCase s = map upper_char s"

text \<open>
  \<open>String.prototype.split\<close> with a string separator: the text is cut at each occurrence
  of the separator, found from left to right; an empty separator cuts between all
  characters.
\<close>

function split_from :: "string \<Rightarrow> string \<Rightarrow> string \<Rightarrow> string list" where
  "split_from sep acc s =
     (if s = [] then [rev acc]
      else if sep \<noteq> [] \<and> take (length sep) s = sep
        then rev acc # split_from sep [] (drop (length sep) s)
      else split_from sep (hd s # acc) (tl s))"
  by pat_completeness auto
termination
  by (relation "measure (\<lambda>(sep, acc, s). length s)") auto

declare split_from.simps [simp del]

definition js_split :: "string \<Rightarrow> string \<Rightarrow> string list" where
  "js_split sep s = (if sep = [] then map (\<lambda>c. [c]) s else split_from sep [] s)"

text \<open>An array element; \<open>None\<close> is \<open>undefined\<close>.\<close>

definition nth_opt :: "'a list \<Rightarrow> nat \<Rightarrow> 'a option" where
  "nth_opt xs i = (if i < length xs then Some (xs ! i) else None)"

text \<open>
  \<open>buildChildWindowName(name, version, options)\<close>. The first two arguments are what the
  environment supplies: the result of \<open>uniqueID()\<close> and the result of
  \<open>getDomain(window)\<close> (\<open>None\<close> when it throws). The options are updated and encoded
  before the two checks, as in the source.
\<close>

definition buildChildWindowName ::
  "string \<Rightarrow> string option \<Rightarrow> string \<Rightarrow> string \<Rightarrow> (string \<times> json) list \<Rightarrow> error + string" where
  "buildChildWindowName uid parent_domain name version options =
     (case parent_domain of
        None \<Rightarrow> Inl (Error ''Can not read window location'')
      | Some d \<Rightarrow>
          (let options' = obj_set (obj_set options ''id'' (JStr uid)) ''domain'' (JStr d);
               encodedName = normalize_str name;
               encodedVersion = normalize_str version;
               encodedOptions =
                 toLowerCase (filter (\<lambda>c. c \<noteq> CHR ''='')
                   (base32_encode (JSON_stringify (JObj options'))))
           in if encodedName = [] then
                Inl (Error (''Invalid name: '' @ name @ '' - must contain alphanumeric characters''))
              else if encodedVersion = [] then
                Inl (Error (''Invalid version: '' @ version
                            @ '' - must contain alphanumeric characters''))
              else Inr (js_join ''__'' [XCOMPONENT, encodedName, encodedVersion, encodedOptions])))"

text \<open>
  What \<open>getComponentMeta\<close> returns: \<open>undefined\<close> (the window is not a component), the
  decoded object with its \<open>name\<close> and \<open>version\<close> set, or a decoded array with the two
  properties attached.
\<close>

datatype meta = NotComponent | Meta "(string \<times> json) list" | ArrayMeta "json list" string string

text \<open>
  \<open>getComponentMeta()\<close> as a function of \<open>window.name\<close> (the source memoizes it). A
  name with fewer than four segments makes \<open>encodedOptions.toUpperCase()\<close> throw inside
  the \<open>try\<close>, so the result is \<open>undefined\<close>. A decoded value that is not an object makes
  the assignment of \<open>name\<close> throw in strict mode.
\<close>

definition getComponentMeta :: "string \<Rightarrow> error + meta" where
  "getComponentMeta window_name =
     (if window_name = [] then Inr NotComponent
      else
        (let parts = js_split ''__'' window_name
         in if nth_opt parts 0 \<noteq> Some XCOMPONENT then Inr NotComponent
            else
              (case nth_opt parts 3 of
                 None \<Rightarrow> Inr NotComponent
               | Some encodedOptions \<Rightarrow>
                   (case base32_decode (toUpperCase encodedOptions) of
                      None \<Rightarrow> Inr NotComponent
                    | Some txt \<Rightarrow>
                        (case JSON_parse txt of
                           None \<Rightarrow> Inr NotComponent
                         | Some componentMeta \<Rightarrow>
                             (let name = parts ! 1;
                                  version = map (\<lambda>c. if c = CHR ''_'' then CHR ''.'' else c) (parts ! 2)
                              in case componentMeta of
                                   JObj kvs \<Rightarrow>
                                     Inr (Meta (obj_set (obj_set kvs ''name'' (JStr name))
                                                  ''version'' (JStr version)))
                                 | JArr xs \<Rightarrow> Inr (ArrayMeta xs name version)
                                 | _ \<Rightarrow> Inl (TypeError ''Cannot create property name'')))))))"

section \<open>The cleanup registry of a controller\<close>

text \<open>
  \<open>cleanup(obj)\<close> keeps a list of tasks and a flag. A task holds a completion flag, an
  optional name and a method. A method is opaque: the model identifies it by a number,
  records each invocation in the trace \<open>invoked\<close>, and is told by the parameter
  \<open>thr\<close> which methods throw. The method that \<open>set\<close> registers deletes a field of
  the controller object, which the model keeps as a map from field names to items.
  Methods do not call back into the registry.
\<close>

datatype cleanup_method = External nat | DeleteField string

record task =
  task_complete :: bool
  task_name :: "string option"
  task_method :: cleanup_method

record registry =
  tasks :: "task list"
  cleaned :: bool
  obj_fields :: "string \<rightharpoonup> nat"
  invoked :: "cleanup_method list"

datatype outcome = Returned | Threw cleanup_method | NotAFunction

definition fresh_registry :: registry where
  "fresh_registry = \<lparr> tasks = [], cleaned = False, obj_fields = Map.empty, invoked = [] \<rparr>"

text \<open>Calling a method: the trace grows, a field deleter removes its field.\<close>

definition invoke :: "(nat \<Rightarrow> bool) \<Rightarrow> cleanup_method \<Rightarrow> registry \<Rightarrow> registry \<times> outcome" where
  "invoke thr m r =
     (case m of
        External i \<Rightarrow>
          (r\<lparr>invoked := invoked r @ [m]\<rparr>, if thr i then Threw m else Returned)
      | DeleteField f \<Rightarrow>
          (r\<lparr>invoked := invoked r @ [m], obj_fields := (obj_fields r)(f := None)\<rparr>, Returned))"

text \<open>
  The two ways \<open>register\<close> is called: \<open>register(method)\<close> and
  \<open>register(name, method)\<close>. On a cleaned registry the source calls its second
  argument at once, before it moves a lone first argument into \<open>method\<close>, so the
  one-argument call fails there. Otherwise a task is pushed at the end of the list.
\<close>

datatype register_call = Register1 cleanup_method | Register2 string cleanup_method

fun call_method :: "register_call \<Rightarrow> cleanup_method" where
  "call_method (Register1 m) = m"
| "call_method (Register2 n m) = m"

fun call_name :: "register_call \<Rightarrow> string option" where
  "call_name (Register1 m) = None"
| "call_name (Register2 n m) = Some n"

definition register :: "(nat \<Rightarrow> bool) \<Rightarrow> register_call \<Rightarrow> registry \<Rightarrow> registry \<times> outcome" where
  "register thr c r =
     (if cleaned r then
        (case c of Register1 m \<Rightarrow> (r, NotAFunction) | Register2 n m \<Rightarrow> invoke thr m r)
      else
        (r\<lparr>tasks := tasks r @ [\<lparr> task_complete = False, task_name = call_name c,
                                   task_method = call_method c \<rparr>]\<rparr>, Returned))"

text \<open>\<open>set(name, item)\<close>: nothing on a cleaned registry.\<close>

definition set_field :: "(nat \<Rightarrow> bool) \<Rightarrow> string \<Rightarrow> nat \<Rightarrow> registry \<Rightarrow> registry \<times> outcome" where
  "set_field thr n item r =
     (if cleaned r then (r, Returned)
      else register thr (Register1 (DeleteField n)) (r\<lparr>obj_fields := (obj_fields r)(n \<mapsto> item)\<rparr>))"

definition hasTasks :: "registry \<Rightarrow> bool" where
  "hasTasks r = (filter (\<lambda>t. \<not> task_complete t) (tasks r) \<noteq> [])"

text \<open>
  \<open>run()\<close> of a task: nothing when the task is complete; otherwise the task is marked
  complete and then its method is called. The result is the task afterwards, the
  registry afterwards and what the call did.
\<close>

definition run_task :: "(nat \<Rightarrow> bool) \<Rightarrow> task \<Rightarrow> registry \<Rightarrow> task \<times> registry \<times> outcome" where
  "run_task thr t r =
     (if task_complete t then (t, r, Returned)
      else (case invoke thr (task_method t) r of
              (r', e) \<Rightarrow> (t\<lparr>task_complete := True\<rparr>, r', e)))"

text \<open>
  The loop of \<open>all()\<close>, \<open>for (; tasks.length;) results.push(tasks.pop().run())\<close>, over
  the tasks in the order in which \<open>pop\<close> yields them (last first). A throw leaves the
  loop; the tasks not yet popped stay in the list.
\<close>

fun pop_and_run :: "(nat \<Rightarrow> bool) \<Rightarrow> task list \<Rightarrow> registry \<Rightarrow> registry \<times> outcome" where
  "pop_and_run thr [] r = (r\<lparr>tasks := []\<rparr>, Returned)"
| "pop_and_run thr (t # ts) r =
     (case run_task thr t r of
        (t', r', Returned) \<Rightarrow> pop_and_run thr ts r'
      | (t', r', e) \<Rightarrow> (r'\<lparr>tasks := rev ts\<rparr>, e))"

definition run_all :: "(nat \<Rightarrow> bool) \<Rightarrow> registry \<Rightarrow> registry \<times> outcome" where
  "run_all thr r = pop_and_run thr (rev (tasks r)) (r\<lparr>cleaned := True\<rparr>)"

text \<open>
  \<open>run(name)\<close>: the tasks with that name are run in list order and stay in the list.
  \<open>None\<close> is the name \<open>undefined\<close>, which the unnamed tasks have. The first
  component of the result is the list of tasks after the loop.
\<close>

fun run_each ::
  "(nat \<Rightarrow> bool) \<Rightarrow> string option \<Rightarrow> task list \<Rightarrow> registry \<Rightarrow> task list \<times> registry \<times> outcome" where
  "run_each thr n [] r = ([], r, Returned)"
| "run_each thr n (t # ts) r =
     (if task_name t = n then
        (case run_task thr t r of
           (t', r', Returned) \<Rightarrow>
             (case run_each thr n ts r' of (ts', r'', e) \<Rightarrow> (t' # ts', r'', e))
         | (t', r', e) \<Rightarrow> (t' # ts, r', e))
      else (case run_each thr n ts r of (ts', r', e) \<Rightarrow> (t # ts', r', e)))"

definition run_named :: "(nat \<Rightarrow> bool) \<Rightarrow> string option \<Rightarrow> registry \<Rightarrow> registry \<times> outcome" where
  "run_named thr n r =
     (case run_each thr n (tasks r) r of (ts, r', e) \<Rightarrow> (r'\<lparr>tasks := ts\<rparr>, e))"

text \<open>
  \<open>destroy()\<close> of the parent controller runs \<open>clean.all()\<close> when the registry has a
  task that is not complete.
\<close>

definition destroy :: "(nat \<Rightarrow> bool) \<Rightarrow> registry \<Rightarrow> registry \<times> outcome" where
  "destroy thr r = (if hasTasks r then run_all thr r else (r, Returned))"

text \<open>The registry after a sequence of registrations on a fresh registry.\<close>

definition registered :: "(nat \<Rightarrow> bool) \<Rightarrow> register_call list \<Rightarrow> registry" where
  "registered thr cs = foldl (\<lambda>r c. fst (register thr c r)) fresh_registry cs"

section \<open>Prop normalisation and validation\<close>

text \<open>
  JavaScript values as far as prop handling tells them apart. A number is an integer in
  the range that the host represents exactly, or \<open>NaN\<close>; fractions are outside the
  model. \<open>Obj\<close> is a plain object, \<open>CyclicObj\<close> one that \<open>JSON.stringify\<close> cannot
  print, \<open>Thenable\<close> an object with a \<open>then\<close> property. A function value records how
  normalisation built it from the function that was supplied.
\<close>

datatype jsval = Undefined | Null | Bool bool | Num int | NaN | Str string | Obj nat
  | CyclicObj nat | Thenable nat | Fn fn
and fn = UserFn nat | Noop | Bound fn | Denodeified fn | Promisified fn | LogCall string fn
  | Once fn | Memoized fn | Const jsval | GetterTimeout string "jsval" fn | GetterChecked string fn





text \<open>
  \<open>String(v)\<close> as \<open>parseInt\<close> reads it, where the model determines it: the text of a
  number is its decimal digits when the number is an integer that the host represents
  exactly; the text of an object or of a function is what its \<open>toString\<close> gives and is
  not modelled (\<open>None\<close>).
\<close>

definition MAX_SAFE_INTEGER :: int where
  "MAX_SAFE_INTEGER = 9007199254740991"

definition js_toString :: "jsval \<Rightarrow> string option" where
  "js_toString v =
     (case v of
        Undefined \<Rightarrow> Some ''undefined''
      | Null \<Rightarrow> Some ''null''
      | Bool b \<Rightarrow> Some (if b then ''true'' else ''false'')
      | Num n \<Rightarrow>
          if \<bar>n\<bar> \<le> MAX_SAFE_INTEGER
          then Some (if n < 0 then ''-'' @ digits (nat (- n)) else digits (nat n))
          else None
      | NaN \<Rightarrow> Some ''NaN''
      | Str s \<Rightarrow> Some s
      | _ \<Rightarrow> None)"

text \<open>The ASCII white space that \<open>parseInt\<close> skips.\<close>

definition is_space :: "char \<Rightarrow> bool" where
  "is_space c = ((9 \<le> (of_char c :: nat) \<and> (of_char c :: nat) \<le> 13) \<or> c = CHR '' '')"

text \<open>
  \<open>parseInt(v, 10)\<close>, where the model determines it: leading white space is skipped, a
  sign is read, then the longest run of decimal digits; without a digit the result is
  \<open>NaN\<close>. A string is the sequence of its UTF-8 bytes. The result is \<open>None\<close>, outside
  the model, when the text of the value is, when the first byte after the ASCII white
  space is not ASCII (it may start a white space character of the host), and when the
  digits denote a number beyond the integers that the host represents exactly (the host
  rounds it). The sign of a zero is not modelled.
\<close>

definition parseInt10 :: "jsval \<Rightarrow> jsval option" where
  "parseInt10 v =
     (case js_toString v of
        None \<Rightarrow> None
      | Some text \<Rightarrow>
          let s = dropWhile is_space text;
              neg = (s \<noteq> [] \<and> hd s = CHR ''-'');
              body = (if s \<noteq> [] \<and> (hd s = CHR ''-'' \<or> hd s = CHR ''+'') then tl s else s);
              ds = takeWhile is_digit body
          in if s \<noteq> [] \<and> (of_char (hd s) :: nat) \<ge> 128 then None
             else if ds = [] then Some NaN
             else if int (digits_value ds) > MAX_SAFE_INTEGER then None
             else Some (Num (if neg then - int (digits_value ds) else int (digits_value ds))))"











section \<open>The message bus\<close>

text \<open>
  The bus keeps its tables in one slot of the window. Other windows are known by their
  handles, here natural numbers; a weak map keyed by window handles is a partial map on
  them. The sweeping of closed windows out of the weak maps and the timers of a pending
  request are not part of the model.
\<close>

subsection \<open>Values that cross the bus\<close>

text \<open>
  A payload is plain data, possibly holding functions and error objects (a message and,
  where the host gives one, a stack). A function is either one of this window (known by
  a number) or the stub that stands for a function of another window: the stub
  remembers the window and the origin it came from, and the identifier and the name
  that its marker carried.
\<close>

datatype pval = PUndef | PNull | PBool bool | PNum int | PStr string | PArr "pval list"
  | PObj "(string \<times> pval) list" | PFn fnref | PErr string "string option"
  and fnref = LocalFn nat | StubFn nat string pval pval

datatype 'a promise = Pending | Resolved 'a | Rejected error

text \<open>What a request resolves with: nothing, or the source, the origin and the data.\<close>

datatype response = NoResponse | Response nat string pval

datatype msg_type = REQUEST | ACK | RESPONSE

definition ACK_SUCCESS :: string where
  "ACK_SUCCESS = ''success''"

definition ACK_ERROR :: string where
  "ACK_ERROR = ''error''"

text \<open>
  The fields of a message that the handlers read. An absent \<open>ack\<close> is \<open>None\<close>, an
  absent \<open>data\<close>, \<open>response\<close> or \<open>error\<close> is \<open>undefined\<close>, an absent \<open>sourceDomain\<close>
  or \<open>id\<close> is the empty string.
\<close>

record message =
  m_type :: msg_type
  m_hash :: string
  m_name :: string
  m_ack :: "string option"
  m_data :: pval
  m_response :: pval
  m_error :: pval
  m_fireAndForget :: bool
  m_sourceDomain :: string
  m_id :: string

subsection \<open>The request-listener table\<close>

text \<open>
  The window of a listener key is absent, the wildcard string, a window or an array; the
  table itself is keyed by a window or by the object \<open>WINDOW_WILDCARD\<close>.
\<close>

datatype win_arg = WNone | WStar | WWin nat | WArr "win_arg list"

datatype wkey = AnyWindow | Win nat

datatype handler = MethodHandler | UserHandler nat

record listener =
  l_name :: string
  l_window :: win_arg
  l_domain :: domain
  l_handler :: handler

text \<open>
  The listeners of one window are one object: under the text of a domain it holds a
  listener, and under \<open>__domain_regex__\<close> the array of the regular-expression entries.
  An entry is an object of its own, so it carries an identity besides the regular
  expression and the listener. The object is kept as the list of its own properties in
  insertion order; properties inherited from the prototype are not modelled.
\<close>

datatype wl_entry = Listener listener | RegexListeners "(nat \<times> regex \<times> listener) list"

type_synonym winlisteners = "(string \<times> wl_entry) list"

definition DOMAIN_REGEX :: string where
  "DOMAIN_REGEX = ''__domain_regex__''"

record response_listener =
  r_name :: string
  r_window :: nat
  r_domain :: domain
  r_ack :: bool

text \<open>
  The tables of the bus. A request owns one promise and one \<open>hasResult\<close> flag; both
  are filed under the hash of the request. \<open>outbox\<close> logs the messages that were
  handed to a send strategy, with their target window; \<open>next_id\<close> numbers the objects
  allocated for regular-expression entries and \<open>uid_calls\<close> counts the calls of
  \<open>uniqueID\<close>.
\<close>

record bus =
  requestListeners :: "string \<rightharpoonup> (wkey \<rightharpoonup> winlisteners)"
  responseListeners :: "string \<rightharpoonup> response_listener"
  requestPromise :: "string \<rightharpoonup> response promise"
  hasResult :: "string \<Rightarrow> bool"
  requestPromises :: "nat \<rightharpoonup> string list"
  methods_of :: "nat \<rightharpoonup> (string \<times> domain \<times> fnref) list"
  receivedMessages :: "string list"
  outbox :: "(nat \<times> message) list"
  next_id :: nat
  uid_calls :: nat

definition empty_bus :: bus where
  "empty_bus =
     \<lparr> requestListeners = Map.empty, responseListeners = Map.empty,
       requestPromise = Map.empty, hasResult = (\<lambda>h. False), requestPromises = Map.empty,
       methods_of = Map.empty, receivedMessages = [], outbox = [], next_id = 0,
       uid_calls = 0 \<rparr>"

text \<open>\<open>toString\<close> of a domain and its truthiness (only the empty string is falsy).\<close>

fun domain_toString :: "domain \<Rightarrow> string" where
  "domain_toString (DStr s) = s"
| "domain_toString (DRegex r) = rx_text r"
| "domain_toString (DList ds) = js_join '','' (map domain_toString ds)"

definition domain_truthy :: "domain \<Rightarrow> bool" where
  "domain_truthy d = (d \<noteq> DStr [])"

text \<open>
  The loop over the regular-expression entries in \<open>getRequestListener\<close>. The domain
  asked for may be \<open>null\<close> (the wildcard was asked for); \<open>matchDomain\<close> then calls
  \<open>match\<close> on \<open>null\<close>, which is a type error.
\<close>

fun match_entries :: "(nat \<times> regex \<times> listener) list \<Rightarrow> domain option \<Rightarrow> error + listener option" where
  "match_entries [] d = Inr None"
| "match_entries (e # es) None = Inl (TypeError ''Cannot read property match of null'')"
| "match_entries (e # es) (Some d) =
     (if matchDomain (DRegex (fst (snd e))) d then Inr (Some (snd (snd e)))
      else match_entries es (Some d))"

text \<open>The search in the listeners of one window: the domain, the wildcard, the entries.\<close>

definition lookup_win :: "winlisteners \<Rightarrow> domain option \<Rightarrow> error + wl_entry option" where
  "lookup_win wl d =
     (case (case d of
              Some q \<Rightarrow> if domain_truthy q then map_of wl (domain_toString q) else None
            | None \<Rightarrow> None) of
        Some e \<Rightarrow> Inr (Some e)
      | None \<Rightarrow>
          (case map_of wl WILDCARD of
             Some e \<Rightarrow> Inr (Some e)
           | None \<Rightarrow>
               (case map_of wl DOMAIN_REGEX of
                  None \<Rightarrow> Inr None
                | Some (Listener l) \<Rightarrow> Inl (TypeError ''object is not iterable'')
                | Some (RegexListeners es) \<Rightarrow>
                    (case match_entries es d of
                       Inl e \<Rightarrow> Inl e
                     | Inr None \<Rightarrow> Inr None
                     | Inr (Some l) \<Rightarrow> Inr (Some (Listener l))))))"

definition getRequestListener :: "string \<Rightarrow> win_arg \<Rightarrow> domain option \<Rightarrow> bus \<Rightarrow> error + wl_entry option" where
  "getRequestListener name win d st =
     (if name = [] then Inl (Error ''Name required to get request listener'')
      else
        let d' = (if d = Some (DStr WILDCARD) then None else d) in
        (case requestListeners st name of
           None \<Rightarrow> Inr None
         | Some nameListeners \<Rightarrow>
             (case (case win of
                      WWin i \<Rightarrow>
                        (case nameListeners (Win i) of
                           Some wl \<Rightarrow> lookup_win wl d'
                         | None \<Rightarrow> Inr None)
                    | _ \<Rightarrow> Inr None) of
                Inl e \<Rightarrow> Inl e
              | Inr (Some x) \<Rightarrow> Inr (Some x)
              | Inr None \<Rightarrow>
                  (case nameListeners AnyWindow of
                     Some wl \<Rightarrow> lookup_win wl d'
                   | None \<Rightarrow> Inr None))))"

text \<open>
  What \<open>addRequestListener\<close> returns: the \<open>cancel\<close> of one key remembers the name, the
  table key of the window, the text of the domain and its regular-expression entry if
  it made one; the \<open>cancel\<close> of an array calls the collected ones in order.
\<close>

datatype canceller = CancelOne string wkey string "nat option" | CancelAll "canceller list"

text \<open>
  Registration under one key (neither the window nor the domain is an array). The
  listener is stored under the text of the domain; for a regular expression an entry is
  pushed on the array under \<open>__domain_regex__\<close> as well, which is created when missing.
\<close>

definition add_one :: "string \<Rightarrow> win_arg \<Rightarrow> domain option \<Rightarrow> listener \<Rightarrow> bus \<Rightarrow> bus \<times> (error + canceller)" where
  "add_one name win d l st =
     (case getRequestListener name win d st of
        Inl e \<Rightarrow> (st, Inl e)
      | Inr existing \<Rightarrow>
          let w = (case win of WWin i \<Rightarrow> Win i | _ \<Rightarrow> AnyWindow);
              dm = (case d of
                      None \<Rightarrow> DStr WILDCARD
                    | Some q \<Rightarrow> if domain_truthy q then q else DStr WILDCARD)
          in
          if existing \<noteq> None then
            (st, Inl (Error (''Request listener already exists for '' @ name @ '' on domain ''
                       @ domain_toString dm @ '' for specified window'')))
          else
            let nameListeners = (case requestListeners st name of Some m \<Rightarrow> m | None \<Rightarrow> Map.empty);
                winListeners = (case nameListeners w of Some x \<Rightarrow> x | None \<Rightarrow> []);
                strDomain = domain_toString dm;
                wl1 = AList.update strDomain (Listener l) winListeners
            in
            (case dm of
               DRegex r \<Rightarrow>
                 (case map_of wl1 DOMAIN_REGEX of
                    Some (Listener x) \<Rightarrow>
                      (st\<lparr>requestListeners := (requestListeners st)(name \<mapsto> nameListeners(w \<mapsto> wl1))\<rparr>,
                       Inl (TypeError ''regexListeners.push is not a function''))
                  | Some (RegexListeners es) \<Rightarrow>
                      (st\<lparr>requestListeners := (requestListeners st)(name \<mapsto> nameListeners(w \<mapsto>
                              AList.update DOMAIN_REGEX (RegexListeners (es @ [(next_id st, r, l)])) wl1)),
                           next_id := Suc (next_id st)\<rparr>,
                       Inr (CancelOne name w strDomain (Some (next_id st))))
                  | None \<Rightarrow>
                      (st\<lparr>requestListeners := (requestListeners st)(name \<mapsto> nameListeners(w \<mapsto>
                              AList.update DOMAIN_REGEX (RegexListeners [(next_id st, r, l)]) wl1)),
                           next_id := Suc (next_id st)\<rparr>,
                       Inr (CancelOne name w strDomain (Some (next_id st)))))
             | _ \<Rightarrow>
                 (st\<lparr>requestListeners := (requestListeners st)(name \<mapsto> nameListeners(w \<mapsto> wl1))\<rparr>,
                  Inr (CancelOne name w strDomain None))))"

text \<open>
  \<open>addRequestListener\<close>: an array of windows, then an array of domains, registers each
  item in turn and collects the handles; an exception leaves the earlier registrations
  in place.
\<close>

fun addRequestListener :: "string \<Rightarrow> win_arg \<Rightarrow> domain option \<Rightarrow> listener \<Rightarrow> bus \<Rightarrow> bus \<times> (error + canceller)"
  and add_wins :: "string \<Rightarrow> win_arg list \<Rightarrow> domain option \<Rightarrow> listener \<Rightarrow> bus \<Rightarrow> bus \<times> (error + canceller list)"
  and add_doms :: "string \<Rightarrow> win_arg \<Rightarrow> domain list \<Rightarrow> listener \<Rightarrow> bus \<Rightarrow> bus \<times> (error + canceller list)"
where
  "addRequestListener name win d l st =
     (if name = [] then (st, Inl (Error ''Name required to add request listener''))
      else
        (case win of
           WArr ws \<Rightarrow>
             (case add_wins name ws d l st of
                (st', Inl e) \<Rightarrow> (st', Inl e)
              | (st', Inr cs) \<Rightarrow> (st', Inr (CancelAll cs)))
         | _ \<Rightarrow>
             (case d of
                Some (DList ds) \<Rightarrow>
                  (case add_doms name win ds l st of
                     (st', Inl e) \<Rightarrow> (st', Inl e)
                   | (st', Inr cs) \<Rightarrow> (st', Inr (CancelAll cs)))
              | _ \<Rightarrow> add_one name win d l st)))"
| "add_wins name [] d l st = (st, Inr [])"
| "add_wins name (w # ws) d l st =
     (case addRequestListener name w d l st of
        (st', Inl e) \<Rightarrow> (st', Inl e)
      | (st', Inr c) \<Rightarrow>
          (case add_wins name ws d l st' of
             (st'', Inl e) \<Rightarrow> (st'', Inl e)
           | (st'', Inr cs) \<Rightarrow> (st'', Inr (c # cs))))"
| "add_doms name win [] l st = (st, Inr [])"
| "add_doms name win (q # qs) l st =
     (case addRequestListener name win (Some q) l st of
        (st', Inl e) \<Rightarrow> (st', Inl e)
      | (st', Inr c) \<Rightarrow>
          (case add_doms name win qs l st' of
             (st'', Inl e) \<Rightarrow> (st'', Inl e)
           | (st'', Inr cs) \<Rightarrow> (st'', Inr (c # cs))))"

text \<open>
  \<open>indexOf(x, 1)\<close>: the first position from 1 on that holds \<open>x\<close>, and \<open>splice(k)\<close>
  with that result: from position \<open>k\<close> on everything is removed, and for \<open>-1\<close> (not
  found from 1 on) the last element is. An entry is found by its identity.
\<close>

fun indexOf_from :: "'a \<Rightarrow> nat \<Rightarrow> nat \<Rightarrow> 'a list \<Rightarrow> nat option" where
  "indexOf_from x start pos [] = None"
| "indexOf_from x start pos (y # ys) =
     (if start \<le> pos \<and> y = x then Some pos else indexOf_from x start (Suc pos) ys)"

definition splice_at :: "nat option \<Rightarrow> 'a list \<Rightarrow> 'a list" where
  "splice_at k xs = (case k of Some i \<Rightarrow> take i xs | None \<Rightarrow> butlast xs)"

definition splice_entry :: "nat \<Rightarrow> (nat \<times> 'a) list \<Rightarrow> (nat \<times> 'a) list" where
  "splice_entry i es = splice_at (indexOf_from i 1 0 (map fst es)) es"

text \<open>
  The \<open>cancel\<close> of one key. The closure holds the objects it registered in; the model
  finds them through the table, which is the same object as long as no other \<open>cancel\<close>
  has detached the listeners of the window in between. The domain is deleted, the
  window is deleted from the map of the name when no key is left, and the array of
  entries is spliced.
\<close>

definition cancel_one :: "string \<Rightarrow> wkey \<Rightarrow> string \<Rightarrow> nat option \<Rightarrow> bus \<Rightarrow> bus" where
  "cancel_one name w strDomain entry st =
     (case requestListeners st name of
        None \<Rightarrow> st
      | Some nameListeners \<Rightarrow>
          (case nameListeners w of
             None \<Rightarrow> st
           | Some winListeners \<Rightarrow>
               let wl1 = AList.delete strDomain winListeners in
               if wl1 = [] then
                 st\<lparr>requestListeners := (requestListeners st)(name \<mapsto> nameListeners(w := None))\<rparr>
               else
                 let wl2 =
                   (case entry of
                      None \<Rightarrow> wl1
                    | Some i \<Rightarrow>
                        (case map_of wl1 DOMAIN_REGEX of
                           Some (RegexListeners es) \<Rightarrow>
                             AList.update DOMAIN_REGEX (RegexListeners (splice_entry i es)) wl1
                         | _ \<Rightarrow> wl1))
                 in st\<lparr>requestListeners := (requestListeners st)(name \<mapsto> nameListeners(w \<mapsto> wl2))\<rparr>))"

fun cancel :: "canceller \<Rightarrow> bus \<Rightarrow> bus" where
  "cancel (CancelOne name w strDomain entry) st = cancel_one name w strDomain entry st"
| "cancel (CancelAll cs) st = fold cancel cs st"

subsection \<open>Functions in payloads\<close>

text \<open>
  Before a payload is sent, \<open>serializeMethods\<close> walks it with \<open>replaceObject\<close>: a
  function is filed in the table of methods under a fresh identifier, with the
  destination window and the domain it is sent to, and replaced by a marker object; an
  error object is replaced by a marker holding its stack. \<open>replaceObject\<close> throws when
  it is entered at depth 100. The walk starts at depth 1 on the wrapper object
  \<open>{obj: payload}\<close>, so the payload is the child \<open>obj\<close> of depth 1. An exception
  leaves the methods filed so far in the table.
\<close>

definition METHOD_TYPE :: string where
  "METHOD_TYPE = ''postrobot_method''"

definition ERROR_TYPE :: string where
  "ERROR_TYPE = ''postrobot_error''"

definition method_marker :: "string \<Rightarrow> string \<Rightarrow> pval" where
  "method_marker ident name =
     PObj [(''__type__'', PStr METHOD_TYPE), (''__id__'', PStr ident), (''__name__'', PStr name)]"

definition error_marker :: "string option \<Rightarrow> pval" where
  "error_marker stack =
     PObj [(''__type__'', PStr ERROR_TYPE),
           (''__message__'', (case stack of Some s \<Rightarrow> PStr s | None \<Rightarrow> PUndef))]"

definition too_deep :: error where
  "too_deep = Error ''Self-referential object passed, or object contained too many layers''"

definition serializeMethod :: "(nat \<Rightarrow> string) \<Rightarrow> nat \<Rightarrow> domain \<Rightarrow> fnref \<Rightarrow> string \<Rightarrow> bus \<Rightarrow> bus \<times> pval" where
  "serializeMethod uid destination dm f name st =
     (let ident = uid (uid_calls st);
          ms = (case methods_of st destination of Some m \<Rightarrow> m | None \<Rightarrow> [])
      in (st\<lparr>methods_of := (methods_of st)(destination \<mapsto> AList.update ident (dm, f) ms),
             uid_calls := Suc (uid_calls st)\<rparr>,
          method_marker ident name))"

fun ser_child :: "(nat \<Rightarrow> string) \<Rightarrow> nat \<Rightarrow> domain \<Rightarrow> nat \<Rightarrow> string \<Rightarrow> pval \<Rightarrow> bus \<Rightarrow> bus \<times> (error + pval)"
  and ser_items :: "(nat \<Rightarrow> string) \<Rightarrow> nat \<Rightarrow> domain \<Rightarrow> nat \<Rightarrow> nat \<Rightarrow> pval list \<Rightarrow> bus \<Rightarrow> bus \<times> (error + pval list)"
  and ser_fields :: "(nat \<Rightarrow> string) \<Rightarrow> nat \<Rightarrow> domain \<Rightarrow> nat \<Rightarrow> (string \<times> pval) list \<Rightarrow> bus \<Rightarrow> bus \<times> (error + (string \<times> pval) list)"
where
  "ser_child uid dest dm depth key (PFn f) st =
     (case serializeMethod uid dest dm f key st of (st', m) \<Rightarrow> (st', Inr m))"
| "ser_child uid dest dm depth key (PErr m stack) st = (st, Inr (error_marker stack))"
| "ser_child uid dest dm depth key (PArr xs) st =
     (if Suc depth \<ge> 100 then (st, Inl too_deep)
      else
        (case ser_items uid dest dm (Suc depth) 0 xs st of
           (st', Inl e) \<Rightarrow> (st', Inl e)
         | (st', Inr ys) \<Rightarrow> (st', Inr (PArr ys))))"
| "ser_child uid dest dm depth key (PObj fs) st =
     (if Suc depth \<ge> 100 then (st, Inl too_deep)
      else
        (case ser_fields uid dest dm (Suc depth) fs st of
           (st', Inl e) \<Rightarrow> (st', Inl e)
         | (st', Inr gs) \<Rightarrow> (st', Inr (PObj gs))))"
| "ser_child uid dest dm depth key PUndef st = (st, Inr PUndef)"
| "ser_child uid dest dm depth key PNull st = (st, Inr PNull)"
| "ser_child uid dest dm depth key (PBool b) st = (st, Inr (PBool b))"
| "ser_child uid dest dm depth key (PNum n) st = (st, Inr (PNum n))"
| "ser_child uid dest dm depth key (PStr s) st = (st, Inr (PStr s))"
| "ser_items uid dest dm depth i [] st = (st, Inr [])"
| "ser_items uid dest dm depth i (x # xs) st =
     (case ser_child uid dest dm depth (digits i) x st of
        (st', Inl e) \<Rightarrow> (st', Inl e)
      | (st', Inr y) \<Rightarrow>
          (case ser_items uid dest dm depth (Suc i) xs st' of
             (st'', Inl e) \<Rightarrow> (st'', Inl e)
           | (st'', Inr ys) \<Rightarrow> (st'', Inr (y # ys))))"
| "ser_fields uid dest dm depth [] st = (st, Inr [])"
| "ser_fields uid dest dm depth (kv # fs) st =
     (case ser_child uid dest dm depth (fst kv) (snd kv) st of
        (st', Inl e) \<Rightarrow> (st', Inl e)
      | (st', Inr y) \<Rightarrow>
          (case ser_fields uid dest dm depth fs st' of
             (st'', Inl e) \<Rightarrow> (st'', Inl e)
           | (st'', Inr gs) \<Rightarrow> (st'', Inr ((fst kv, y) # gs))))"

definition serializeMethods :: "(nat \<Rightarrow> string) \<Rightarrow> nat \<Rightarrow> domain \<Rightarrow> pval \<Rightarrow> bus \<Rightarrow> bus \<times> (error + pval)" where
  "serializeMethods uid destination dm obj st = ser_child uid destination dm 1 ''obj'' obj st"

text \<open>
  The text that \<open>new Error(v)\<close> takes as its message; the source text of a function is
  not modelled.
\<close>

fun to_text :: "pval \<Rightarrow> string" where
  "to_text PUndef = []"
| "to_text PNull = ''null''"
| "to_text (PBool b) = (if b then ''true'' else ''false'')"
| "to_text (PNum n) = (if n < 0 then ''-'' @ digits (nat (- n)) else digits (nat n))"
| "to_text (PStr s) = s"
| "to_text (PArr xs) =
     js_join '','' (map (\<lambda>x. if x = PUndef \<or> x = PNull then [] else to_text x) xs)"
| "to_text (PObj fs) = ''[object Object]''"
| "to_text (PFn f) = ''function''"
| "to_text (PErr m stack) = ''Error: '' @ m"

definition field :: "(string \<times> pval) list \<Rightarrow> string \<Rightarrow> pval" where
  "field fs k = (case map_of fs k of Some v \<Rightarrow> v | None \<Rightarrow> PUndef)"





definition pval_truthy :: "pval \<Rightarrow> bool" where
  "pval_truthy v =
     (case v of
        PUndef \<Rightarrow> False
      | PNull \<Rightarrow> False
      | PBool b \<Rightarrow> b
      | PNum n \<Rightarrow> n \<noteq> 0
      | PStr s \<Rightarrow> s \<noteq> []
      | _ \<Rightarrow> True)"

subsection \<open>The host of a window and \<open>sendMessage\<close>\<close>

text \<open>What a function or a handler of this window does when it is called.\<close>

text \<open>
  A thrown value: an object with a message and, where the host gives one, a stack (an
  error object); a falsy value, given with the text that \<open>Object.prototype.toString\<close>
  prints for it; or another truthy value, which has neither stack nor message.
\<close>

datatype raised = ErrorObject string "string option" | FalsyValue string | TruthyValue

datatype call_result = Returns pval | Raises raised | Deferred

record element =
  tagName :: string
  objectText :: string
  contentWindow :: "nat option"

text \<open>
  What the bus asks of the window it runs in, at the time of one call: the handle of
  the window itself, its domain and the text of its location; the results of
  \<open>uniqueID\<close> by call number; the stack that the host gives a new error; which windows
  are closed; of which windows this one is the ancestor and whether they have reported
  ready; to which windows some send strategy delivers; the elements of the document; and
  the behaviour of the functions and of the user handlers of this window, which get the
  source and the origin of the message and the arguments or the data.
\<close>

record host =
  h_self :: nat
  h_domain :: string
  h_here :: string
  h_uid :: "nat \<Rightarrow> string"
  h_stack :: "error \<Rightarrow> string option"
  h_closed :: "nat \<Rightarrow> bool"
  h_ancestor :: "nat \<Rightarrow> bool"
  h_ready :: "nat \<Rightarrow> unit promise"
  h_posts :: "nat \<Rightarrow> bool"
  h_element :: "string \<Rightarrow> element option"
  h_impl :: "nat \<Rightarrow> nat \<Rightarrow> string \<Rightarrow> pval list \<Rightarrow> call_result"
  h_user :: "nat \<Rightarrow> nat \<Rightarrow> string \<Rightarrow> pval \<Rightarrow> call_result"

text \<open>
  \<open>sendMessage\<close>: the data is serialised for the target, the message gets its
  identifier and the domain of this window, and it is handed to the send strategies
  unless the target is this window or is closed. The strategies are taken to finish
  within the call.
\<close>

definition sendMessage :: "host \<Rightarrow> nat \<Rightarrow> message \<Rightarrow> domain \<Rightarrow> bus \<Rightarrow> bus \<times> (error + message)" where
  "sendMessage h win msg dm st =
     (case serializeMethods (h_uid h) win dm (m_data msg) st of
        (st1, Inl e) \<Rightarrow> (st1, Inl e)
      | (st1, Inr d) \<Rightarrow>
          let ident = h_uid h (uid_calls st1);
              st2 = st1\<lparr>uid_calls := Suc (uid_calls st1)\<rparr>;
              built = msg\<lparr>m_data := d, m_sourceDomain := h_domain h,
                          m_id := (if m_id msg = [] then ident else m_id msg)\<rparr>
          in
          if win = h_self h then (st2, Inl (Error ''Attemping to send message to self''))
          else if h_closed h win then (st2, Inl (Error ''Window is closed''))
          else if \<not> h_posts h win then (st2, Inl (Error ''No send strategy succeeded''))
          else (st2\<lparr>outbox := outbox st2 @ [(win, built)]\<rparr>, Inr built))"

subsection \<open>Response listeners and the promise of a request\<close>

definition addResponseListener :: "string \<Rightarrow> response_listener \<Rightarrow> bus \<Rightarrow> bus" where
  "addResponseListener hash l st = st\<lparr>responseListeners := (responseListeners st)(hash \<mapsto> l)\<rparr>"

definition getResponseListener :: "string \<Rightarrow> bus \<Rightarrow> response_listener option" where
  "getResponseListener hash st = responseListeners st hash"

definition deleteResponseListener :: "string \<Rightarrow> bus \<Rightarrow> bus" where
  "deleteResponseListener hash st = st\<lparr>responseListeners := (responseListeners st)(hash := None)\<rparr>"

text \<open>
  A promise is settled once: \<open>resolve\<close> and \<open>reject\<close> return at once on a settled
  promise. The promise of a request carries the handler
  \<open>catch(() => deleteResponseListener(hash))\<close>, which runs when the promise rejects.
\<close>

definition resolve_request :: "string \<Rightarrow> response \<Rightarrow> bus \<Rightarrow> bus" where
  "resolve_request hash v st =
     (case requestPromise st hash of
        Some Pending \<Rightarrow> st\<lparr>requestPromise := (requestPromise st)(hash \<mapsto> Resolved v)\<rparr>
      | _ \<Rightarrow> st)"

definition reject_request :: "string \<Rightarrow> error \<Rightarrow> bus \<Rightarrow> bus" where
  "reject_request hash e st =
     (case requestPromise st hash of
        Some Pending \<Rightarrow>
          deleteResponseListener hash (st\<lparr>requestPromise := (requestPromise st)(hash \<mapsto> Rejected e)\<rparr>)
      | _ \<Rightarrow> st)"

text \<open>
  The \<open>respond\<close> function of the response listener of a request. Without an error it
  sets \<open>hasResult\<close>, splices the promise out of the promises of the window (found here
  through the table, by the hash of the request) and resolves; with an error it rejects.
\<close>

definition respond :: "string \<Rightarrow> nat \<Rightarrow> error option \<Rightarrow> response \<Rightarrow> bus \<Rightarrow> bus" where
  "respond hash win err result st =
     (case err of
        Some e \<Rightarrow> reject_request hash e st
      | None \<Rightarrow>
          resolve_request hash result
            (st\<lparr>hasResult := (hasResult st)(hash := True),
                requestPromises :=
                  (case requestPromises st win of
                     None \<Rightarrow> requestPromises st
                   | Some ps \<Rightarrow> (requestPromises st)(win \<mapsto> splice_at (indexOf_from hash 1 0 ps) ps))\<rparr>))"

text \<open>The handlers of an ACK and of a RESPONSE message, with the origin they are given.\<close>

definition receive_ack :: "host \<Rightarrow> nat \<Rightarrow> string \<Rightarrow> message \<Rightarrow> bus \<Rightarrow> bus \<times> error option" where
  "receive_ack h source origin msg st =
     (case getResponseListener (m_hash msg) st of
        None \<Rightarrow>
          (st, Some (Error (''No handler found for post message ack for message: '' @ m_name msg
                            @ '' from '' @ origin @ '' in '' @ h_here h)))
      | Some options \<Rightarrow>
          if \<not> matchDomain (r_domain options) (DStr origin) then
            (st, Some (Error (''Ack origin '' @ origin @ '' does not match domain ''
                              @ domain_toString (r_domain options))))
          else
            (st\<lparr>responseListeners := (responseListeners st)(m_hash msg \<mapsto> options\<lparr>r_ack := True\<rparr>)\<rparr>,
             None))"

definition receive_response :: "host \<Rightarrow> nat \<Rightarrow> string \<Rightarrow> message \<Rightarrow> bus \<Rightarrow> bus \<times> error option" where
  "receive_response h source origin msg st =
     (case getResponseListener (m_hash msg) st of
        None \<Rightarrow>
          (st, Some (Error (''No handler found for post message response for message: ''
                            @ m_name msg @ '' from '' @ origin @ '' in '' @ h_here h)))
      | Some options \<Rightarrow>
          if \<not> matchDomain (r_domain options) (DStr origin) then
            (st, Some (Error (''Response origin '' @ origin @ '' does not match domain ''
                              @ domain_toString (r_domain options))))
          else
            let st1 = deleteResponseListener (m_hash msg) st in
            if m_ack msg = Some ACK_ERROR then
              (respond (m_hash msg) (r_window options) (Some (Error (to_text (m_error msg)))) NoResponse st1,
               None)
            else if m_ack msg = Some ACK_SUCCESS then
              (respond (m_hash msg) (r_window options) None
                 (Response source origin
                    (if pval_truthy (m_data msg) then m_data msg else m_response msg)) st1,
               None)
            else (st1, None))"

subsection \<open>\<open>request\<close>\<close>

datatype target = TWindow nat | TElementId string | TElement element | TNone

record request_options =
  o_name :: string
  o_window :: target
  o_domain :: "domain option"
  o_data :: pval
  o_fireAndForget :: bool

definition iframe_window :: "element \<Rightarrow> error + nat" where
  "iframe_window el =
     (if toLowerCase (tagName el) \<noteq> ''iframe'' then
        Inl (Error (''Expected options.window '' @ objectText el @ '' to be an iframe''))
      else
        (case contentWindow el of
           None \<Rightarrow>
             Inl (Error ''Iframe must have contentWindow.  Make sure it has a src attribute and is in the DOM.'')
         | Some w \<Rightarrow> Inr w))"

definition target_window :: "host \<Rightarrow> target \<Rightarrow> error + nat" where
  "target_window h t =
     (case t of
        TElementId i \<Rightarrow>
          (case h_element h i of
             None \<Rightarrow> Inl (Error ''Expected options.window [object String] to be a valid element id'')
           | Some el \<Rightarrow> iframe_window (el\<lparr>objectText := ''[object String]''\<rparr>))
      | TElement el \<Rightarrow> iframe_window el
      | TNone \<Rightarrow>
          Inl (Error ''Expected options.window to be a window object, iframe, or iframe element id.'')
      | TWindow w \<Rightarrow> Inr w)"

text \<open>
  The body of the promise that \<open>request\<close> makes once the target is ready: the response
  listener is added under the hash, the message is sent, and then the constructor of
  the promise settles it. A failure of the send calls \<open>reject\<close>; \<open>fireAndForget\<close> calls
  \<open>resolve\<close>; both calls happen inside the constructor, which afterwards resolves if
  \<open>resolve\<close> was called and otherwise rejects if \<open>reject\<close> was. Without
  \<open>fireAndForget\<close> and without a failure the promise stays pending; the timers that may
  reject it later are not modelled.
\<close>

definition dispatch_request :: "host \<Rightarrow> string \<Rightarrow> nat \<Rightarrow> domain \<Rightarrow> request_options \<Rightarrow> bus \<Rightarrow> bus" where
  "dispatch_request h hash win dm opts st =
     (let st1 = addResponseListener hash
                  \<lparr> r_name = o_name opts, r_window = win, r_domain = dm, r_ack = False \<rparr> st
      in
      (case sendMessage h win
              \<lparr> m_type = REQUEST, m_hash = hash, m_name = o_name opts, m_ack = None,
                m_data = o_data opts, m_response = PUndef, m_error = PUndef,
                m_fireAndForget = o_fireAndForget opts, m_sourceDomain = [], m_id = [] \<rparr>
              dm st1 of
         (st2, sent) \<Rightarrow>
           if o_fireAndForget opts then resolve_request hash NoResponse st2
           else
             (case sent of
                Inl e \<Rightarrow> reject_request hash e st2
              | Inr m \<Rightarrow> st2)))"

text \<open>
  \<open>request\<close>. An exception before the promise of the request exists rejects the
  returned promise (\<open>Inl\<close>); otherwise the result is the hash, under which the state of
  the promise is found. When this window is the ancestor of the target, the body waits
  for the target to be ready; a target that is not ready yet leaves the promise pending
  and the tables as they are.
\<close>

definition request :: "host \<Rightarrow> request_options \<Rightarrow> bus \<Rightarrow> bus \<times> (error + string)" where
  "request h opts st =
     (if o_name opts = [] then (st, Inl (Error ''Expected options.name''))
      else
        (case target_window h (o_window opts) of
           Inl e \<Rightarrow> (st, Inl e)
         | Inr win \<Rightarrow>
             let dm = (case o_domain opts of
                         None \<Rightarrow> DStr WILDCARD
                       | Some q \<Rightarrow> if domain_truthy q then q else DStr WILDCARD);
                 hash = o_name opts @ ''_'' @ h_uid h (uid_calls st);
                 st1 = st\<lparr>uid_calls := Suc (uid_calls st)\<rparr>
             in
             if h_closed h win then (st1, Inl (Error ''Target window is closed''))
             else
               let st2 = st1\<lparr>requestPromise := (requestPromise st1)(hash \<mapsto> Pending),
                              requestPromises :=
                                (requestPromises st1)(win \<mapsto>
                                   (case requestPromises st1 win of Some ps \<Rightarrow> ps | None \<Rightarrow> []) @ [hash])\<rparr>
               in
               if h_ancestor h win then
                 (case h_ready h win of
                    Pending \<Rightarrow> (st2, Inr hash)
                  | Rejected e \<Rightarrow> (reject_request hash e st2, Inr hash)
                  | Resolved u \<Rightarrow> (dispatch_request h hash win dm opts st2, Inr hash))
               else (dispatch_request h hash win dm opts st2, Inr hash)))"

subsection \<open>Receiving a request and the listener for methods\<close>


text \<open>
  The text of a value used as a property key or spliced into a string: as \<open>to_text\<close>,
  but \<open>undefined\<close> prints.
\<close>

definition to_key :: "pval \<Rightarrow> string" where
  "to_key v = (if v = PUndef then ''undefined'' else to_text v)"

definition message_of :: "error \<Rightarrow> string" where
  "message_of e = (case e of Error m \<Rightarrow> m | TypeError m \<Rightarrow> m)"

text \<open>An error thrown by the bus itself, as the object that a handler of the error sees.\<close>

definition raise_of :: "host \<Rightarrow> error \<Rightarrow> raised" where
  "raise_of h e = ErrorObject (message_of e) (h_stack h e)"

definition contains :: "string \<Rightarrow> string \<Rightarrow> bool" where
  "contains s a = list_ex (\<lambda>i. take (length a) (drop i s) = a) [0 ..< Suc (length s)]"

definition strip_error_prefix :: "string \<Rightarrow> string" where
  "strip_error_prefix s = (if take 7 s = ''Error: '' then drop 7 s else s)"

text \<open>
  The \<open>error\<close> field of the RESPONSE that reports a failed handler. The promise
  library replaces a falsy reason of a rejection by a new error object that names it.
  Of an error object the field is the stack, preceded by the message when the stack
  does not contain it, without a leading \<open>Error: \<close>, or the message when there is no
  stack. Another truthy value has neither, so the field is \<open>undefined\<close>.
\<close>

definition report :: "string \<Rightarrow> string option \<Rightarrow> pval" where
  "report m stack =
     (case stack of
        None \<Rightarrow> PStr m
      | Some s \<Rightarrow>
          if s = [] then PStr m
          else PStr (strip_error_prefix
                       (if m \<noteq> [] \<and> \<not> contains s m then m @ [CHR 0x0A] @ s else s)))"

definition error_text :: "host \<Rightarrow> raised \<Rightarrow> pval" where
  "error_text h r =
     (case r of
        ErrorObject m stack \<Rightarrow> report m stack
      | FalsyValue printed \<Rightarrow>
          report (''Expected reject to be called with Error, got '' @ printed)
            (h_stack h (Error (''Expected reject to be called with Error, got '' @ printed)))
      | TruthyValue \<Rightarrow> PUndef)"

text \<open>
  \<open>respond\<close> inside the handler of a REQUEST: nothing is sent for \<open>fireAndForget\<close> or
  to a closed source; otherwise the message goes back to the source, for the origin of
  the request. A failed send is logged only.
\<close>

definition reply :: "host \<Rightarrow> nat \<Rightarrow> string \<Rightarrow> message \<Rightarrow> message \<Rightarrow> bus \<Rightarrow> bus" where
  "reply h source origin req m st =
     (if m_fireAndForget req \<or> h_closed h source then st
      else fst (sendMessage h source (m\<lparr>m_hash := m_hash req, m_name := m_name req\<rparr>) (DStr origin) st))"

definition blank_message :: "msg_type \<Rightarrow> message" where
  "blank_message t =
     \<lparr> m_type = t, m_hash = [], m_name = [], m_ack = None, m_data = PUndef, m_response = PUndef,
       m_error = PUndef, m_fireAndForget = False, m_sourceDomain = [], m_id = [] \<rparr>"

text \<open>
  The handler that \<open>listenForMethods\<close> registers for the name \<open>postrobot_method\<close>. It
  looks the identifier up in the methods filed for the source window, checks the origin
  against the domain filed with the method, and applies the method to the arguments.
  An argument list that is an object but no array is taken to have no length. A stub of
  a third window answers later.
\<close>

definition method_handler :: "host \<Rightarrow> nat \<Rightarrow> string \<Rightarrow> pval \<Rightarrow> bus \<Rightarrow> call_result" where
  "method_handler h source origin d st =
     (case methods_of st source of
        None \<Rightarrow>
          Raises (raise_of h (Error ''Could not find any methods this window has privileges to call''))
      | Some ms \<Rightarrow>
          if d = PUndef \<or> d = PNull then
            Raises (raise_of h (TypeError ''Cannot read property id of undefined''))
          else
            let fs = (case d of PObj fs \<Rightarrow> fs | _ \<Rightarrow> []) in
            (case map_of ms (to_key (field fs ''id'')) of
               None \<Rightarrow>
                 Raises (raise_of h (Error (''Could not find method with id: '' @ to_key (field fs ''id''))))
             | Some meth \<Rightarrow>
                 if \<not> matchDomain (fst meth) (DStr origin) then
                   Raises (raise_of h (Error (''Method domain '' @ domain_toString (fst meth)
                                              @ '' does not match origin '' @ origin)))
                 else
                   (case (case field fs ''args'' of
                            PArr xs \<Rightarrow> Some xs
                          | PUndef \<Rightarrow> Some []
                          | PNull \<Rightarrow> Some []
                          | PObj gs \<Rightarrow> Some []
                          | PErr m stack \<Rightarrow> Some []
                          | PFn f \<Rightarrow> Some []
                          | _ \<Rightarrow> None) of
                      None \<Rightarrow>
                        Raises (raise_of h (TypeError ''CreateListFromArrayLike called on non-object''))
                    | Some args \<Rightarrow>
                        (case snd meth of
                           StubFn w org i nm \<Rightarrow> Deferred
                         | LocalFn n \<Rightarrow>
                             (case h_impl h n source origin args of
                                Returns v \<Rightarrow>
                                  Returns (PObj [(''result'', v), (''id'', field fs ''id''),
                                                 (''name'', field fs ''name'')])
                              | Raises r \<Rightarrow> Raises r
                              | Deferred \<Rightarrow> Deferred)))))"

definition run_handler :: "host \<Rightarrow> wl_entry option \<Rightarrow> nat \<Rightarrow> string \<Rightarrow> message \<Rightarrow> bus \<Rightarrow> call_result" where
  "run_handler h options source origin msg st =
     (case options of
        None \<Rightarrow>
          Raises (raise_of h (Error (''No handler found for post message: '' @ m_name msg @ '' from ''
                                     @ origin @ '' in '' @ h_here h)))
      | Some (RegexListeners es) \<Rightarrow>
          Raises (raise_of h (Error (''Request origin '' @ origin @ '' does not match domain undefined'')))
      | Some (Listener l) \<Rightarrow>
          if \<not> matchDomain (l_domain l) (DStr origin) then
            Raises (raise_of h (Error (''Request origin '' @ origin @ '' does not match domain ''
                                       @ domain_toString (l_domain l))))
          else
            (case l_handler l of
               MethodHandler \<Rightarrow> method_handler h source origin (m_data msg) st
             | UserHandler n \<Rightarrow> h_user h n source origin (m_data msg)))"

text \<open>
  The handler of a REQUEST: the listener is looked up for the name, the source and the
  origin (an exception of the lookup leaves the handler); an ACK is sent; the handler
  runs; its result goes back in a RESPONSE with \<open>ack: success\<close>, its error in one with
  \<open>ack: error\<close>.
\<close>

definition receive_request :: "host \<Rightarrow> nat \<Rightarrow> string \<Rightarrow> message \<Rightarrow> bus \<Rightarrow> bus \<times> error option" where
  "receive_request h source origin msg st =
     (case getRequestListener (m_name msg) (WWin source) (Some (DStr origin)) st of
        Inl e \<Rightarrow> (st, Some e)
      | Inr options \<Rightarrow>
          let st1 = reply h source origin msg (blank_message ACK) st in
          (case run_handler h options source origin msg st1 of
             Deferred \<Rightarrow> (st1, None)
           | Returns d \<Rightarrow>
               (reply h source origin msg
                  ((blank_message RESPONSE)\<lparr>m_ack := Some ACK_SUCCESS, m_data := d\<rparr>) st1,
                None)
           | Raises r \<Rightarrow>
               (reply h source origin msg
                  ((blank_message RESPONSE)\<lparr>m_ack := Some ACK_ERROR, m_error := error_text h r\<rparr>) st1,
                None)))"



subsection \<open>Calling a stub\<close>







text \<open>A second regular expression, \<open>/^https:\/\/b\./\<close>, and a listener with a user handler.\<close>

definition rx_https_b :: regex where
  "rx_https_b =
     Regex (''/^https:'' @ [CHR 0x5C] @ ''/'' @ [CHR 0x5C] @ ''/b'' @ [CHR 0x5C] @ ''./'')
       True (lits ''https://b.'') False"

definition user_listener :: "string \<Rightarrow> win_arg \<Rightarrow> domain \<Rightarrow> nat \<Rightarrow> listener" where
  "user_listener name win d h =
     \<lparr> l_name = name, l_window = win, l_domain = d, l_handler = UserHandler h \<rparr>"

text \<open>The listeners filed for a window under a name, if any.\<close>

definition listeners_at :: "bus \<Rightarrow> string \<Rightarrow> wkey \<Rightarrow> winlisteners option" where
  "listeners_at st name w = (case requestListeners st name of None \<Rightarrow> None | Some m \<Rightarrow> m w)"

text \<open>
  A host for the examples: nothing is closed and every send is delivered; its function 0
  returns the array of its arguments and its other functions throw an error.
\<close>

definition page_host :: host where
  "page_host =
     \<lparr> h_self = 0, h_domain = ''https://a.example'', h_here = ''https://a.example/'',
       h_uid = (\<lambda>n. replicate (Suc n) (CHR ''a'')), h_stack = (\<lambda>e. None),
       h_closed = (\<lambda>w. False), h_ancestor = (\<lambda>w. False), h_ready = (\<lambda>w. Resolved ()),
       h_posts = (\<lambda>w. True), h_element = (\<lambda>i. None),
       h_impl = (\<lambda>n source origin args.
                   if n = 0 then Returns (PArr args) else Raises (ErrorObject ''boom'' None)),
       h_user = (\<lambda>n source origin d. Returns d) \<rparr>"




text \<open>
  Plain data of nesting depth at most \<open>d\<close>: no function, no error object, no
  \<open>undefined\<close>, and no object that carries the type of a marker.
\<close>

fun plain :: "nat \<Rightarrow> pval \<Rightarrow> bool"
  and plain_items :: "nat \<Rightarrow> pval list \<Rightarrow> bool"
  and plain_fields :: "nat \<Rightarrow> (string \<times> pval) list \<Rightarrow> bool"
where
  "plain d PNull = True"
| "plain d (PBool b) = True"
| "plain d (PNum n) = True"
| "plain d (PStr s) = True"
| "plain d PUndef = False"
| "plain d (PFn f) = False"
| "plain d (PErr m stack) = False"
| "plain d (PArr xs) = (0 < d \<and> plain_items (d - 1) xs)"
| "plain d (PObj fs) =
     (0 < d \<and> map_of fs ''__type__'' \<noteq> Some (PStr METHOD_TYPE) \<and>
      map_of fs ''__type__'' \<noteq> Some (PStr ERROR_TYPE) \<and> plain_fields (d - 1) fs)"
| "plain_items d [] = True"
| "plain_items d (x # xs) = (plain d x \<and> plain_items d xs)"
| "plain_fields d [] = True"
| "plain_fields d (kv # fs) = (plain d (snd kv) \<and> plain_fields d fs)"


text \<open>
  Two states of the bus that differ at most in the methods filed, the identifiers used
  and the messages sent.
\<close>

definition same_tables :: "bus \<Rightarrow> bus \<Rightarrow> bool" where
  "same_tables st st' =
     (requestListeners st' = requestListeners st \<and> responseListeners st' = responseListeners st \<and>
      requestPromise st' = requestPromise st \<and> hasResult st' = hasResult st \<and>
      requestPromises st' = requestPromises st \<and> receivedMessages st' = receivedMessages st \<and>
      next_id st' = next_id st)"

text \<open>A method that does not throw.\<close>

definition quiet :: "(nat \<Rightarrow> bool) \<Rightarrow> cleanup_method \<Rightarrow> bool" where
  "quiet thr m = (case m of External i \<Rightarrow> \<not> thr i | DeleteField f \<Rightarrow> True)"

text \<open>
  A segment that \<open>split('__')\<close> cannot cut: it has no two adjacent underscores and
  does not end with an underscore.
\<close>

fun seg_ok :: "string \<Rightarrow> bool" where
  "seg_ok [] = True"
| "seg_ok [c] = (c \<noteq> CHR ''_'')"
| "seg_ok (c # d # cs) = (\<not> (c = CHR ''_'' \<and> d = CHR ''_'') \<and> seg_ok (d # cs))"

text \<open>The characters that the Base32 encoder can print.\<close>

definition b32_chars :: "char set" where
  "b32_chars = set BASE32_ENCODE_CHAR \<union> set ''undefined=''"

section \<open>Properties\<close>

subsection \<open>Helper lemmas\<close>

lemma regex_test_https_a: "regex_test rx_https_a ''https://a.example''"
  by (simp add: regex_test_def rx_https_a_def)

text \<open>Shape of normalised names and of split window names.\<close>

lemma alnum_not_underscore: "alnum c \<Longrightarrow> c \<noteq> CHR ''_''"
  by (auto simp: alnum_def)

lemma collapse_alnum_hd:
  "s \<noteq> [] \<Longrightarrow> alnum (hd s) \<Longrightarrow> collapse s \<noteq> [] \<and> hd (collapse s) = hd s"
  by (cases s) auto

lemma collapse_seg_ok: "s \<noteq> [] \<Longrightarrow> alnum (last s) \<Longrightarrow> seg_ok (collapse s)"
proof (induction s rule: collapse.induct)
  case 1
  then show ?case by simp
next
  case (2 c cs)
  show ?case
  proof (cases "alnum c")
    case True
    show ?thesis
    proof (cases cs)
      case Nil
      with True show ?thesis by (simp add: alnum_not_underscore)
    next
      case (Cons d ds)
      with "2.IH"(1) "2.prems" True have ok: "seg_ok (collapse cs)" by simp
      from Cons have "collapse cs \<noteq> []" by (cases "alnum d") auto
      then obtain e es where "collapse cs = e # es" by (cases "collapse cs") auto
      with ok True show ?thesis by (simp add: alnum_not_underscore)
    qed
  next
    case False
    let ?r = "dropWhile (\<lambda>c. \<not> alnum c) cs"
    from "2.prems" False have "cs \<noteq> []" by auto
    with "2.prems" have lastcs: "alnum (last cs)" by simp
    then have ex: "\<exists>x \<in> set cs. alnum x" using \<open>cs \<noteq> []\<close> last_in_set by blast
    then have rne: "?r \<noteq> []" by (simp add: dropWhile_eq_Nil_conv)
    have hdr: "alnum (hd ?r)" using rne hd_dropWhile[of "\<lambda>c. \<not> alnum c" cs] by auto
    have "cs = takeWhile (\<lambda>c. \<not> alnum c) cs @ ?r" by simp
    then have "last cs = last (takeWhile (\<lambda>c. \<not> alnum c) cs @ ?r)" by simp
    also have "\<dots> = last ?r" using rne by (rule last_appendR)
    finally have "last ?r = last cs" by simp
    with lastcs have "alnum (last ?r)" by simp
    with "2.IH"(2) False rne have ok: "seg_ok (collapse ?r)" by simp
    from collapse_alnum_hd[OF rne hdr] obtain es where "collapse ?r = hd ?r # es"
      by (cases "collapse ?r") auto
    with ok False hdr show ?thesis by (simp add: alnum_not_underscore)
  qed
qed

lemma strip_edges_last: "strip_edges s \<noteq> [] \<Longrightarrow> alnum (last (strip_edges s))"
proof -
  let ?u = "dropWhile (\<lambda>c. \<not> alnum c) (rev (dropWhile (\<lambda>c. \<not> alnum c) s))"
  assume "strip_edges s \<noteq> []"
  then have ne: "?u \<noteq> []" by (simp add: strip_edges_def)
  then have "alnum (hd ?u)" using hd_dropWhile[of "\<lambda>c. \<not> alnum c"] by blast
  moreover have "last (strip_edges s) = hd ?u" using ne by (simp add: strip_edges_def last_rev)
  ultimately show ?thesis by simp
qed

lemma normalize_str_seg_ok: "seg_ok (normalize_str s)"
proof (cases "strip_edges s = []")
  case True
  then show ?thesis by (simp add: normalize_str_def)
next
  case False
  then show ?thesis by (simp add: normalize_str_def collapse_seg_ok strip_edges_last)
qed

lemma collapse_Nil_iff: "collapse s = [] \<longleftrightarrow> s = []"
  by (cases s) auto

lemma strip_edges_Nil_iff: "strip_edges s = [] \<longleftrightarrow> (\<forall>c \<in> set s. \<not> alnum c)"
proof -
  let ?P = "\<lambda>c. \<not> alnum c"
  let ?t = "dropWhile ?P s"
  have "strip_edges s = [] \<longleftrightarrow> (\<forall>x \<in> set ?t. ?P x)"
    by (simp add: strip_edges_def dropWhile_eq_Nil_conv)
  also have "\<dots> \<longleftrightarrow> ?t = []"
  proof
    assume all: "\<forall>x \<in> set ?t. ?P x"
    show "?t = []"
    proof (rule ccontr)
      assume ne: "?t \<noteq> []"
      then have "\<not> ?P (hd ?t)" by (rule hd_dropWhile)
      moreover have "hd ?t \<in> set ?t" using ne by (rule hd_in_set)
      ultimately show False using all by blast
    qed
  next
    assume e: "?t = []"
    show "\<forall>x \<in> set ?t. ?P x" unfolding e by simp
  qed
  also have "\<dots> \<longleftrightarrow> (\<forall>c \<in> set s. ?P c)"
    by (simp add: dropWhile_eq_Nil_conv)
  finally show ?thesis .
qed

lemma normalize_str_Nil_iff: "normalize_str s = [] \<longleftrightarrow> (\<forall>c \<in> set s. \<not> alnum c)"
proof (cases "s = []")
  case True
  then show ?thesis by (simp add: normalize_str_def)
next
  case False
  then show ?thesis by (simp add: normalize_str_def collapse_Nil_iff strip_edges_Nil_iff)
qed

lemma split_from_Nil: "split_from sep acc [] = [rev acc]"
  by (simp add: split_from.simps)

lemma split_from_hit:
  assumes "take 2 (c # cs) = ''__''"
  shows "split_from ''__'' acc (c # cs) = rev acc # split_from ''__'' [] (drop 2 (c # cs))"
proof -
  have len: "length ''__'' = 2" by simp
  show ?thesis
    by (subst split_from.simps) (simp only: len assms list.distinct simp_thms if_False if_True)
qed

lemma split_from_miss:
  assumes "take 2 (c # cs) \<noteq> ''__''"
  shows "split_from ''__'' acc (c # cs) = split_from ''__'' (c # acc) cs"
proof -
  have len: "length ''__'' = 2" by simp
  show ?thesis
    by (subst split_from.simps)
      (simp only: len assms list.distinct list.sel simp_thms if_False if_True)
qed

lemma split_from_segment:
  "seg_ok n \<Longrightarrow>
   split_from ''__'' acc (n @ ''__'' @ rest) = (rev acc @ n) # split_from ''__'' [] rest"
proof (induction n arbitrary: acc rule: seg_ok.induct)
  case 1
  show ?case using split_from_hit[of "CHR ''_''" "CHR ''_'' # rest" acc] by simp
next
  case (2 c)
  then have "split_from ''__'' acc ([c] @ ''__'' @ rest) = split_from ''__'' (c # acc) (''__'' @ rest)"
    using split_from_miss[of c "''__'' @ rest" acc] by simp
  also have "\<dots> = rev (c # acc) # split_from ''__'' [] rest"
    using split_from_hit[of "CHR ''_''" "CHR ''_'' # rest" "c # acc"] by simp
  finally show ?case by simp
next
  case (3 c d cs)
  then have "split_from ''__'' acc ((c # d # cs) @ ''__'' @ rest)
      = split_from ''__'' (c # acc) ((d # cs) @ ''__'' @ rest)"
    using split_from_miss[of c "(d # cs) @ ''__'' @ rest" acc] by auto
  also have "\<dots> = (rev (c # acc) @ (d # cs)) # split_from ''__'' [] rest"
    using 3 by simp
  finally show ?case by simp
qed

lemma split_from_last:
  "CHR ''_'' \<notin> set p \<Longrightarrow> split_from ''__'' acc p = [rev acc @ p]"
proof (induction p arbitrary: acc)
  case Nil
  show ?case by (simp add: split_from_Nil)
next
  case (Cons c cs)
  then have "split_from ''__'' acc (c # cs) = split_from ''__'' (c # acc) cs"
    using split_from_miss[of c cs acc] by auto
  with Cons show ?case by simp
qed

lemma js_split_window_name:
  assumes "seg_ok a" "seg_ok b" "seg_ok c" "CHR ''_'' \<notin> set p"
  shows "js_split ''__'' (js_join ''__'' [a, b, c, p]) = [a, b, c, p]"
proof -
  have "split_from ''__'' [] (a @ ''__'' @ b @ ''__'' @ c @ ''__'' @ p)
      = a # split_from ''__'' [] (b @ ''__'' @ c @ ''__'' @ p)"
    using split_from_segment[OF assms(1), of "[]"] by simp
  also have "split_from ''__'' [] (b @ ''__'' @ c @ ''__'' @ p) = b # split_from ''__'' [] (c @ ''__'' @ p)"
    using split_from_segment[OF assms(2), of "[]"] by simp
  also have "split_from ''__'' [] (c @ ''__'' @ p) = c # split_from ''__'' [] p"
    using split_from_segment[OF assms(3), of "[]"] by simp
  also have "split_from ''__'' [] p = [p]"
    using split_from_last[OF assms(4), of "[]"] by simp
  finally show ?thesis by (simp add: js_split_def)
qed

lemma lower_char_alphabet: "c \<in> b32_chars \<Longrightarrow> lower_char c \<noteq> CHR ''_''"
  by (auto simp: b32_chars_def BASE32_ENCODE_CHAR_def lower_char_def)

lemma padding_b32_chars: "set ''======'' \<subseteq> b32_chars" "set ''===='' \<subseteq> b32_chars"
  "set ''==='' \<subseteq> b32_chars" "set ''='' \<subseteq> b32_chars"
  by (simp_all add: b32_chars_def)

lemma set_enc_char: "set (enc_char n) \<subseteq> b32_chars"
proof (cases "n < 32")
  case True
  then have "BASE32_ENCODE_CHAR ! n \<in> set BASE32_ENCODE_CHAR"
    by (intro nth_mem) (simp add: BASE32_ENCODE_CHAR_def)
  with True show ?thesis by (simp add: enc_char_def b32_chars_def)
next
  case False
  then show ?thesis by (simp add: enc_char_def b32_chars_def)
qed

lemma set_block5: "set (block5 v1 v2 v3 v4 v5) \<subseteq> b32_chars"
  by (simp add: block5_def set_enc_char)

lemma set_block_rest: "set (block_rest bs) \<subseteq> b32_chars"
  by (cases bs rule: encodeBytes.cases)
    (simp_all add: block_rest_def set_enc_char padding_b32_chars del: list.set(2))

lemma set_encodeBytes: "set (encodeBytes bs) \<subseteq> b32_chars"
  by (induction bs rule: encodeBytes.induct) (simp_all add: set_block5 set_block_rest)

lemma payload_no_underscore:
  "CHR ''_'' \<notin> set (toLowerCase (filter (\<lambda>c. c \<noteq> CHR ''='') (base32_encode txt)))"
proof
  assume "CHR ''_'' \<in> set (toLowerCase (filter (\<lambda>c. c \<noteq> CHR ''='') (base32_encode txt)))"
  then obtain c where c: "c \<in> set (encodeBytes (map of_char txt))" and l: "lower_char c = CHR ''_''"
    by (auto simp: toLowerCase_def base32_encode_def)
  from c set_encodeBytes have "c \<in> b32_chars" by blast
  then have "lower_char c \<noteq> CHR ''_''" by (rule lower_char_alphabet)
  with l show False by simp
qed

text \<open>A window name built for the component \<open>my-comp\<close>, version \<open>1.0\<close>, with no options.\<close>

lemma build_example:
  "buildChildWindowName ''0123456789'' (Some ''https://a.example'') ''my-comp'' ''1.0'' []
   = Inr ''xcomponent__my_comp__1_0__pmrgszbchirdamjsgm2dknrxha4selbcmrxw2yljnyrduitior2ha4z2f4xwcltfpbqw24dmmurh2''"
  by (simp add: buildChildWindowName_def normalize_str_def strip_edges_def alnum_def XCOMPONENT_def
      quote_def escape_char_def dq_def bsl_def base32_encode_def block5_def block_rest_def
      enc_char_def BASE32_ENCODE_CHAR_def toLowerCase_def lower_char_def)

text \<open>The cleanup registry.\<close>

lemma invoke_quiet:
  "quiet thr m \<Longrightarrow> snd (invoke thr m r) = Returned \<and> invoked (fst (invoke thr m r)) = invoked r @ [m]
     \<and> tasks (fst (invoke thr m r)) = tasks r \<and> cleaned (fst (invoke thr m r)) = cleaned r"
  by (cases m) (auto simp: invoke_def quiet_def)

lemma pop_and_run_quiet:
  "\<forall>t \<in> set ts. quiet thr (task_method t) \<Longrightarrow>
   snd (pop_and_run thr ts r) = Returned
   \<and> invoked (fst (pop_and_run thr ts r))
       = invoked r @ map task_method (filter (\<lambda>t. \<not> task_complete t) ts)
   \<and> tasks (fst (pop_and_run thr ts r)) = []
   \<and> cleaned (fst (pop_and_run thr ts r)) = cleaned r"
proof (induction ts arbitrary: r)
  case Nil
  show ?case by simp
next
  case (Cons t ts)
  show ?case
  proof (cases "task_complete t")
    case True
    with Cons show ?thesis by (simp add: run_task_def)
  next
    case False
    from Cons.prems have q: "quiet thr (task_method t)" by simp
    obtain r' where r': "invoke thr (task_method t) r = (r', Returned)"
      using invoke_quiet[OF q, of r] by (cases "invoke thr (task_method t) r") auto
    with invoke_quiet[OF q, of r] have inv: "invoked r' = invoked r @ [task_method t]"
      and cl: "cleaned r' = cleaned r" by auto
    from Cons.prems have "\<forall>t \<in> set ts. quiet thr (task_method t)" by simp
    from Cons.IH[OF this, of r'] False r' inv cl show ?thesis
      by (simp add: run_task_def)
  qed
qed

lemma registered_state:
  "tasks (registered thr cs)
     = map (\<lambda>c. \<lparr> task_complete = False, task_name = call_name c, task_method = call_method c \<rparr>) cs
   \<and> \<not> cleaned (registered thr cs) \<and> invoked (registered thr cs) = []"
proof (induction cs rule: rev_induct)
  case Nil
  show ?case by (simp add: registered_def fresh_registry_def)
next
  case (snoc c cs)
  then show ?case by (simp add: registered_def register_def)
qed



lemma parseInt10_number:
  "parseInt10 v = Some r \<Longrightarrow> r = NaN \<or> (\<exists>n. r = Num n)"
  by (auto simp: parseInt10_def Let_def split: option.splits if_splits)


text \<open>Registration and cancellation under a literal domain.\<close>

lemma delete_update_fresh:
  "map_of wl k = None \<Longrightarrow> AList.delete k (AList.update k v wl) = wl"
  by (induction wl) (auto split: if_splits)

lemma lookup_win_none_literal:
  assumes "lookup_win wl d = Inr None"
  shows "map_of wl WILDCARD = None"
    and "\<And>q. d = Some q \<Longrightarrow> domain_truthy q \<Longrightarrow> map_of wl (domain_toString q) = None"
  using assms by (auto simp: lookup_win_def split: option.splits if_splits)

lemma get_none_key_absent:
  assumes g: "getRequestListener name win (Some (DStr s)) st = Inr None"
    and nm: "requestListeners st name = Some m"
    and wl: "m (case win of WWin i \<Rightarrow> Win i | _ \<Rightarrow> AnyWindow) = Some wl"
  shows "map_of wl (if s = [] then WILDCARD else s) = None"
proof -
  let ?d = "if Some (DStr s) = Some (DStr WILDCARD) then None else Some (DStr s)"
  have lw: "lookup_win wl ?d = Inr None"
    using g nm wl
    by (cases win) (auto simp: getRequestListener_def Let_def split: if_splits option.splits sum.splits)
  show ?thesis
  proof (cases "s = [] \<or> s = WILDCARD")
    case True
    then show ?thesis using lookup_win_none_literal(1)[OF lw] by auto
  next
    case False
    then have "map_of wl (domain_toString (DStr s)) = None"
      using lookup_win_none_literal(2)[OF lw, of "DStr s"] by (auto simp: domain_truthy_def)
    then show ?thesis using False by simp
  qed
qed

text \<open>
  Under a literal domain, registering and cancelling at once gives back the listeners
  of every window under every name, provided that the window did not hold an empty
  object before (the code never leaves one behind under a literal domain).
\<close>

lemma register_cancel_literal:
  assumes reg: "addRequestListener name win (Some (DStr s)) l st = (st1, Inr c)"
    and win: "\<forall>ws. win \<noteq> WArr ws"
    and inv: "listeners_at st name (case win of WWin i \<Rightarrow> Win i | _ \<Rightarrow> AnyWindow) \<noteq> Some []"
  shows "listeners_at (cancel c st1) n w = listeners_at st n w"
proof -
  let ?w = "case win of WWin i \<Rightarrow> Win i | _ \<Rightarrow> AnyWindow"
  let ?k = "if s = [] then WILDCARD else s"
  from reg win have ne: "name \<noteq> []" and one: "add_one name win (Some (DStr s)) l st = (st1, Inr c)"
    by (cases win; auto split: if_splits)+
  from one have g: "getRequestListener name win (Some (DStr s)) st = Inr None"
    by (auto simp: add_one_def Let_def split: sum.splits if_splits)
  let ?m = "case requestListeners st name of Some m \<Rightarrow> m | None \<Rightarrow> Map.empty"
  let ?wl = "case ?m ?w of Some x \<Rightarrow> x | None \<Rightarrow> []"
  have fresh: "map_of ?wl ?k = None"
  proof (cases "requestListeners st name")
    case None then show ?thesis by simp
  next
    case (Some m)
    show ?thesis
    proof (cases "m ?w")
      case None then show ?thesis using Some by simp
    next
      case (Some wl)
      with get_none_key_absent[OF g \<open>requestListeners st name = Some m\<close> Some]
      show ?thesis using \<open>requestListeners st name = Some m\<close> by simp
    qed
  qed
  have st1: "st1 = st\<lparr>requestListeners := (requestListeners st)(name \<mapsto> ?m(?w \<mapsto> AList.update ?k (Listener l) ?wl))\<rparr>"
    and c: "c = CancelOne name ?w ?k None"
    using one g by (auto simp: add_one_def Let_def domain_truthy_def split: if_splits)
  have del: "AList.delete ?k (AList.update ?k (Listener l) ?wl) = ?wl"
    by (rule delete_update_fresh[OF fresh])
  have "requestListeners (cancel c st1) =
      (requestListeners st)(name \<mapsto> (if ?wl = [] then ?m(?w := None) else ?m(?w \<mapsto> ?wl)))"
    unfolding c st1 by (simp add: cancel_one_def del Let_def)
  then show ?thesis
    using inv by (auto simp: listeners_at_def split: option.splits if_splits)
qed

lemma rx_a_text:
  "rx_text rx_https_a \<noteq> DOMAIN_REGEX" "rx_text rx_https_a \<noteq> WILDCARD"
  "DOMAIN_REGEX \<noteq> rx_text rx_https_a"
  by (simp_all add: rx_https_a_def DOMAIN_REGEX_def WILDCARD_def)

text \<open>Sending files methods and uses identifiers, and changes no other table.\<close>

lemma same_tables_refl: "same_tables st st"
  by (simp add: same_tables_def)

lemma same_tables_trans: "same_tables a b \<Longrightarrow> same_tables b c \<Longrightarrow> same_tables a c"
  by (simp add: same_tables_def)

lemma serializeMethod_same: "same_tables st (fst (serializeMethod uid dest dm f key st))"
  by (simp add: serializeMethod_def same_tables_def Let_def)

lemma ser_same:
  "same_tables st (fst (ser_child uid dest dm depth key v st))"
  "same_tables st (fst (ser_items uid dest dm depth i xs st))"
  "same_tables st (fst (ser_fields uid dest dm depth fs st))"
proof (induction uid dest dm depth key v st and uid dest dm depth i xs st and uid dest dm depth fs st
    rule: ser_child_ser_items_ser_fields.induct)
  case (1 uid dest dm depth key f st)
  then show ?case using serializeMethod_same[of st uid dest dm f key]
    by (cases "serializeMethod uid dest dm f key st") auto
next
  case (11 uid dest dm depth i x xs st)
  show ?case
  proof (cases "ser_child uid dest dm depth (digits i) x st")
    case (Pair st' r)
    show ?thesis
    proof (cases r)
      case (Inl e) then show ?thesis using Pair 11(1) by simp
    next
      case (Inr y)
      then show ?thesis using Pair 11(1) 11(2)[OF Pair[symmetric] Inr]
        by (auto split: prod.splits sum.splits intro: same_tables_trans)
    qed
  qed
next
  case (13 uid dest dm depth kv fs st)
  show ?case
  proof (cases "ser_child uid dest dm depth (fst kv) (snd kv) st")
    case (Pair st' r)
    show ?thesis
    proof (cases r)
      case (Inl e) then show ?thesis using Pair 13(1) by simp
    next
      case (Inr y)
      then show ?thesis using Pair 13(1) 13(2)[OF Pair[symmetric] Inr]
        by (auto split: prod.splits sum.splits intro: same_tables_trans)
    qed
  qed
qed (auto simp: same_tables_refl split: prod.splits sum.splits)

lemma sendMessage_same: "same_tables st (fst (sendMessage h win msg dm st))"
  using ser_same(1)[of st "h_uid h" win dm 1 "''obj''" "m_data msg"]
  by (auto simp: sendMessage_def serializeMethods_def Let_def same_tables_def split: prod.splits sum.splits)




lemma plain_mono:
  "plain d v \<Longrightarrow> d \<le> e \<Longrightarrow> plain e v"
  "plain_items d xs \<Longrightarrow> d \<le> e \<Longrightarrow> plain_items e xs"
  "plain_fields d fs \<Longrightarrow> d \<le> e \<Longrightarrow> plain_fields e fs"
  by (induction d v and d xs and d fs arbitrary: e and e and e
      rule: plain_plain_items_plain_fields.induct) auto









lemma getRequestListener_received [simp]:
  "getRequestListener n w d (st\<lparr>receivedMessages := x\<rparr>) = getRequestListener n w d st"
  by (simp add: getRequestListener_def)











lemma getRequestListener_methods [simp]:
  "getRequestListener n w d (st\<lparr>methods_of := a, uid_calls := b\<rparr>) = getRequestListener n w d st"
  by (simp add: getRequestListener_def)




subsection \<open>Claims\<close>

text \<open>
  C7. With a string origin, \<open>matchDomain\<close> returns: for a string pattern, true iff the
  pattern is the wildcard or equals the origin; for a regular expression, the result of
  testing the origin; for a list, true iff some element of the list matches. In
  particular the wildcard matches every string origin and \<open>/^https:\/\/a\./\<close> matches
  \<open>https://a.example\<close>.
\<close>

theorem matchDomain_string_origin:
  "matchDomain (DStr p) (DStr orig) = (p = ''*'' \<or> orig = p)
   \<and> matchDomain (DRegex r) (DStr orig) = regex_test r orig
   \<and> matchDomain (DList ps) (DStr orig) = (\<exists>q \<in> set ps. matchDomain q (DStr orig))
   \<and> matchDomain (DStr ''*'') (DStr orig)
   \<and> matchDomain (DRegex rx_https_a) (DStr ''https://a.example'')"
  by (simp add: WILDCARD_def list_ex_iff regex_test_https_a)

theorem matchDomain_string_origin_witness:
  "matchDomain (DStr ''https://a.example'') (DStr ''https://a.example'')
   \<and> \<not> matchDomain (DStr ''https://a.example'') (DStr ''https://b.example'')
   \<and> matchDomain (DList [DStr ''https://b.example'', DRegex rx_https_a]) (DStr ''https://a.example'')
   \<and> \<not> matchDomain (DList [DStr ''https://b.example'']) (DStr ''https://a.example'')"
  using matchDomain_string_origin [of "''https://a.example''" "''https://a.example''" rx_https_a
      "[DStr ''https://b.example'', DRegex rx_https_a]"]
    matchDomain_string_origin [of "''https://a.example''" "''https://b.example''" rx_https_a
      "[DStr ''https://b.example'']"]
  by (simp add: WILDCARD_def)

text \<open>
  C8. \<open>isWindowClosed\<close> always returns a boolean. A null handle is closed. When the
  handle is not the current window and reading its \<open>closed\<close> flag throws, the result is
  true, except when the thrown value is an error whose message is
  \<open>Call was rejected by callee.\r\n\<close>: then the result is false.
\<close>

theorem isWindowClosed_conservative:
  "isWindowClosed cur allowMock None
   \<and> (win_is_current w = Reads False \<and> win_closed w = Throws t
        \<longrightarrow> isWindowClosed cur allowMock (Some w)
             = (t \<noteq> ThrownTruthy (Some (''Call was rejected by callee.'' @ [CHR 0x0D, CHR 0x0A]))))"
  by (cases t) (auto simp: isWindowClosed_def CALL_REJECTED_def)

theorem isWindowClosed_conservative_witness:
  "\<not> isWindowClosed page_a True (Some (rejecting_window
        (ThrownTruthy (Some (''Call was rejected by callee.'' @ [CHR 0x0D, CHR 0x0A])))))
   \<and> isWindowClosed page_a True (Some (rejecting_window (ThrownTruthy (Some ''Permission denied''))))
   \<and> isWindowClosed page_a True (Some (rejecting_window ThrownFalsy))
   \<and> isWindowClosed page_a True None"
  using isWindowClosed_conservative [of page_a True "rejecting_window
        (ThrownTruthy (Some (''Call was rejected by callee.'' @ [CHR 0x0D, CHR 0x0A])))"
        "ThrownTruthy (Some (''Call was rejected by callee.'' @ [CHR 0x0D, CHR 0x0A]))"]
    isWindowClosed_conservative [of page_a True "rejecting_window (ThrownTruthy (Some ''Permission denied''))"
        "ThrownTruthy (Some ''Permission denied'')"]
    isWindowClosed_conservative [of page_a True "rejecting_window ThrownFalsy" ThrownFalsy]
  by (simp add: rejecting_window_def)

text \<open>
  C10. \<open>buildChildWindowName\<close> throws when the name, or the version, has no
  alphanumeric character (its normalised form is empty; a name of dashes is an
  example), and no window name is produced. A window name that is returned splits at
  \<open>__\<close> into four segments whose name and version segments are the normalised name and
  version, both non-empty.
\<close>

theorem buildChildWindowName_rejects_empty:
  "(normalize_str name = [] \<longleftrightarrow> (\<forall>c \<in> set name. \<not> alnum c))
   \<and> (normalize_str name = [] \<or> normalize_str version = []
        \<longrightarrow> (\<exists>e. buildChildWindowName uid pd name version options = Inl e))
   \<and> (buildChildWindowName uid pd name version options = Inr w
        \<longrightarrow> (\<exists>payload. js_split ''__'' w
                         = [''xcomponent'', normalize_str name, normalize_str version, payload])
            \<and> normalize_str name \<noteq> [] \<and> normalize_str version \<noteq> [])"
proof (intro conjI impI)
  show "normalize_str name = [] \<longleftrightarrow> (\<forall>c \<in> set name. \<not> alnum c)"
    by (rule normalize_str_Nil_iff)
next
  assume "normalize_str name = [] \<or> normalize_str version = []"
  then show "\<exists>e. buildChildWindowName uid pd name version options = Inl e"
    by (auto simp: buildChildWindowName_def Let_def split: option.splits)
next
  assume built: "buildChildWindowName uid pd name version options = Inr w"
  then obtain d where d: "pd = Some d"
    by (cases pd) (auto simp: buildChildWindowName_def)
  let ?p = "toLowerCase (filter (\<lambda>c. c \<noteq> CHR ''='')
              (base32_encode (JSON_stringify (JObj (obj_set (obj_set options ''id'' (JStr uid))
                 ''domain'' (JStr d))))))"
  from built d have ne: "normalize_str name \<noteq> []" "normalize_str version \<noteq> []"
    and w: "w = js_join ''__'' [XCOMPONENT, normalize_str name, normalize_str version, ?p]"
    by (auto simp: buildChildWindowName_def Let_def split: if_splits)
  have "seg_ok XCOMPONENT" by (simp add: XCOMPONENT_def)
  then have "js_split ''__'' w = [XCOMPONENT, normalize_str name, normalize_str version, ?p]"
    unfolding w
    by (rule js_split_window_name) (rule normalize_str_seg_ok normalize_str_seg_ok payload_no_underscore)+
  then show "\<exists>payload. js_split ''__'' w
      = [''xcomponent'', normalize_str name, normalize_str version, payload]"
    by (simp add: XCOMPONENT_def)
  from ne show "normalize_str name \<noteq> []" "normalize_str version \<noteq> []" .
qed

theorem buildChildWindowName_rejects_empty_witness:
  "normalize_str ''---'' = []
   \<and> (\<exists>e. buildChildWindowName ''0123456789'' (Some ''https://a.example'') ''---'' ''1.0'' [] = Inl e)
   \<and> (\<exists>e. buildChildWindowName ''0123456789'' (Some ''https://a.example'') ''my-comp'' ''...'' [] = Inl e)
   \<and> (\<exists>payload.
         js_split ''__'' ''xcomponent__my_comp__1_0__pmrgszbchirdamjsgm2dknrxha4selbcmrxw2yljnyrduitior2ha4z2f4xwcltfpbqw24dmmurh2''
         = [''xcomponent'', ''my_comp'', ''1_0'', payload])"
proof -
  have none: "\<forall>c \<in> set ''---''. \<not> alnum c" "\<forall>c \<in> set ''...''. \<not> alnum c"
    by (simp_all add: alnum_def)
  have norm: "normalize_str ''my-comp'' = ''my_comp''" "normalize_str ''1.0'' = ''1_0''"
    by (simp_all add: normalize_str_def strip_edges_def alnum_def)
  show ?thesis
    using none norm build_example
      buildChildWindowName_rejects_empty
        [where name = "''---''" and version = "''1.0''" and uid = "''0123456789''"
           and pd = "Some ''https://a.example''" and options = "[]"]
      buildChildWindowName_rejects_empty
        [where name = "''my-comp''" and version = "''...''" and uid = "''0123456789''"
           and pd = "Some ''https://a.example''" and options = "[]"]
      buildChildWindowName_rejects_empty
        [where name = "''my-comp''" and version = "''1.0''" and uid = "''0123456789''"
           and pd = "Some ''https://a.example''" and options = "[]"
           and w = "''xcomponent__my_comp__1_0__pmrgszbchirdamjsgm2dknrxha4selbcmrxw2yljnyrduitior2ha4z2f4xwcltfpbqw24dmmurh2''"]
    by (simp add: normalize_str_Nil_iff)
qed

text \<open>
  C5, as amended. When no registered method throws, destroying a controller runs every
  cleanup task registered in its registry exactly once, in the reverse of the order in
  which the tasks were registered (the last registered task first); a second destroy
  runs nothing; and every task is idempotent: running a task that has been run does not
  invoke the underlying method again.
\<close>

theorem destroy_runs_tasks_last_first:
  assumes "\<forall>c \<in> set cs. quiet thr (call_method c)"
  shows "snd (destroy thr (registered thr cs)) = Returned
    \<and> invoked (fst (destroy thr (registered thr cs))) = rev (map call_method cs)
    \<and> destroy thr (fst (destroy thr (registered thr cs)))
        = (fst (destroy thr (registered thr cs)), Returned)
    \<and> (run_task thr t r = (t', r', e) \<longrightarrow> run_task thr t' r'' = (t', r'', Returned))"
proof -
  let ?mk = "\<lambda>c. \<lparr> task_complete = False, task_name = call_name c, task_method = call_method c \<rparr>"
  let ?R = "registered thr cs"
  have st: "tasks ?R = map ?mk cs" "\<not> cleaned ?R" "invoked ?R = []"
    using registered_state[of thr cs] by simp_all
  have q: "\<forall>t \<in> set (rev (tasks ?R)). quiet thr (task_method t)"
    using assms by (simp add: st)
  have filt: "filter (\<lambda>t. \<not> task_complete t) (rev (map ?mk cs)) = rev (map ?mk cs)"
    by (induction cs) simp_all
  have methods: "map task_method (rev (map ?mk cs)) = rev (map call_method cs)"
    by (simp add: rev_map)
  have all: "snd (run_all thr ?R) = Returned"
    "invoked (fst (run_all thr ?R)) = rev (map call_method cs)"
    "tasks (fst (run_all thr ?R)) = []"
    using pop_and_run_quiet[OF q, of "?R\<lparr>cleaned := True\<rparr>"] filt methods
    by (simp_all add: run_all_def st)
  have d: "snd (destroy thr ?R) = Returned \<and> invoked (fst (destroy thr ?R)) = rev (map call_method cs)
      \<and> \<not> hasTasks (fst (destroy thr ?R))"
  proof (cases "hasTasks ?R")
    case True
    with all show ?thesis by (simp add: destroy_def hasTasks_def)
  next
    case False
    moreover have "filter (\<lambda>t. \<not> task_complete t) (map ?mk cs) = map ?mk cs"
      by (induction cs) simp_all
    ultimately have "cs = []" by (simp add: hasTasks_def st)
    with False st(3) show ?thesis by (simp add: destroy_def)
  qed
  have again: "destroy thr (fst (destroy thr ?R)) = (fst (destroy thr ?R), Returned)"
    using d by (simp add: destroy_def)
  have idem: "run_task thr t r = (t', r', e) \<longrightarrow> run_task thr t' r'' = (t', r'', Returned)"
    by (auto simp: run_task_def split: if_splits prod.splits)
  from d again idem show ?thesis by simp
qed

theorem destroy_runs_tasks_last_first_witness:
  "invoked (fst (destroy (\<lambda>i. False) (registered (\<lambda>i. False)
       [Register2 ''destroyWindow'' (External 1), Register1 (External 2),
        Register1 (DeleteField ''window'')])))
     = [DeleteField ''window'', External 2, External 1]
   \<and> run_task (\<lambda>i. False) \<lparr> task_complete = True, task_name = None, task_method = External 2 \<rparr> fresh_registry
     = (\<lparr> task_complete = True, task_name = None, task_method = External 2 \<rparr>, fresh_registry, Returned)"
proof -
  have q: "\<forall>c \<in> set [Register2 ''destroyWindow'' (External 1), Register1 (External 2),
        Register1 (DeleteField ''window'')]. quiet (\<lambda>i. False) (call_method c)"
    by (simp add: quiet_def)
  have r: "run_task (\<lambda>i. False) \<lparr> task_complete = False, task_name = None, task_method = External 2 \<rparr>
        fresh_registry
      = (\<lparr> task_complete = True, task_name = None, task_method = External 2 \<rparr>,
         fresh_registry\<lparr>invoked := [External 2]\<rparr>, Returned)"
    by (simp add: run_task_def invoke_def fresh_registry_def)
  show ?thesis
    using destroy_runs_tasks_last_first[OF q,
        of "\<lparr> task_complete = False, task_name = None, task_method = External 2 \<rparr>" fresh_registry
           "\<lparr> task_complete = True, task_name = None, task_method = External 2 \<rparr>"
           "fresh_registry\<lparr>invoked := [External 2]\<rparr>" Returned fresh_registry] r
    by simp
qed

text \<open>
  The claim as stated asks for the order of registration; two tasks registered in the
  order 1, 2 are run in the order 2, 1.
\<close>

theorem destroy_registration_order_counterexample:
  "invoked (fst (destroy (\<lambda>i. False) (registered (\<lambda>i. False)
       [Register1 (External 1), Register1 (External 2)])))
     \<noteq> map call_method [Register1 (External 1), Register1 (External 2)]"
  by (simp add: destroy_def hasTasks_def registered_def register_def fresh_registry_def
      run_all_def run_task_def invoke_def)

text \<open>
  Claim C6 (registering a listener and cancelling it restores the listener table, also
  for a regular-expression domain). The code does not do this for a regular
  expression. On an empty table, \<open>addRequestListener\<close> for the name \<open>init\<close>, a window
  and the domain \<open>/^https:\/\/a\./\<close> followed by the returned \<open>cancel\<close> leaves the
  window in the map of the name, holding an object whose only key is
  \<open>__domain_regex__\<close> with an empty array: the key count is then 1, not 0, so the
  window is not deleted from the map. Before the registration the window had no entry.
\<close>

theorem cancel_regex_leaves_window_entry:
  "listeners_at empty_bus ''init'' (Win 1) = None \<and>
   (case addRequestListener ''init'' (WWin 1) (Some (DRegex rx_https_a))
           (user_listener ''init'' (WWin 1) (DRegex rx_https_a) 0) empty_bus of
      (st1, Inr c) \<Rightarrow>
        listeners_at (cancel c st1) ''init'' (Win 1) = Some [(DOMAIN_REGEX, RegexListeners [])]
    | (st1, Inl e) \<Rightarrow> False)"
  by (simp add: add_one_def getRequestListener_def empty_bus_def domain_truthy_def Let_def
      rx_a_text listeners_at_def cancel_one_def splice_entry_def splice_at_def)

text \<open>
  The splice in \<open>cancel\<close> is \<open>splice(indexOf(entry, 1))\<close>, not
  \<open>splice(indexOf(entry), 1)\<close>. With two regular-expression listeners on one window,
  cancelling the first removes the entry of the second: an origin of the first
  pattern still finds the cancelled listener, and an origin of the second pattern finds
  none.
\<close>

lemma cancel_first_regex_removes_second:
  "(case addRequestListener ''init'' (WWin 1) (Some (DRegex rx_https_a))
           (user_listener ''init'' (WWin 1) (DRegex rx_https_a) 0) empty_bus of
      (st1, Inr c1) \<Rightarrow>
        (case addRequestListener ''init'' (WWin 1) (Some (DRegex rx_https_b))
                (user_listener ''init'' (WWin 1) (DRegex rx_https_b) 1) st1 of
           (st2, Inr c2) \<Rightarrow>
             getRequestListener ''init'' (WWin 1) (Some (DStr ''https://a.example'')) (cancel c1 st2)
               = Inr (Some (Listener (user_listener ''init'' (WWin 1) (DRegex rx_https_a) 0))) \<and>
             getRequestListener ''init'' (WWin 1) (Some (DStr ''https://b.example'')) (cancel c1 st2)
               = Inr None
         | (st2, Inl e) \<Rightarrow> False)
    | (st1, Inl e) \<Rightarrow> False)"
  by (simp add: add_one_def getRequestListener_def empty_bus_def domain_truthy_def Let_def
      listeners_at_def cancel_one_def splice_entry_def splice_at_def lookup_win_def
      regex_test_def WILDCARD_def DOMAIN_REGEX_def rx_https_a_def rx_https_b_def user_listener_def)

text \<open>
  Claim C3. When the response listener filed under the hash of a RESPONSE or an ACK
  message has a domain pattern that the origin of the message does not match, the
  handler throws the error that names the origin and the pattern, and the bus is left
  exactly as it was: the listener stays in the table with its \<open>ack\<close> flag unchanged,
  \<open>respond\<close> is not called, and the promise of the request is not settled. The origin
  is the one the handler is given.
\<close>

theorem mismatched_origin_not_applied:
  assumes "getResponseListener (m_hash msg) st = Some options"
    and "\<not> matchDomain (r_domain options) (DStr origin)"
  shows "receive_response h source origin msg st =
           (st, Some (Error (''Response origin '' @ origin @ '' does not match domain ''
                             @ domain_toString (r_domain options)))) \<and>
         receive_ack h source origin msg st =
           (st, Some (Error (''Ack origin '' @ origin @ '' does not match domain ''
                             @ domain_toString (r_domain options))))"
  using assms by (simp add: receive_response_def receive_ack_def)

theorem mismatched_origin_not_applied_witness:
  "getResponseListener ''init_a''
     (addResponseListener ''init_a''
        \<lparr> r_name = ''init'', r_window = 1, r_domain = DStr ''https://b.example'', r_ack = False \<rparr>
        (empty_bus\<lparr>requestPromise := [''init_a'' \<mapsto> Pending]\<rparr>))
     = Some \<lparr> r_name = ''init'', r_window = 1, r_domain = DStr ''https://b.example'', r_ack = False \<rparr> \<and>
   \<not> matchDomain (DStr ''https://b.example'') (DStr ''https://evil.example'') \<and>
   receive_response page_host 1 ''https://evil.example''
     \<lparr> m_type = RESPONSE, m_hash = ''init_a'', m_name = ''init'', m_ack = Some ACK_SUCCESS,
       m_data = PStr ''forged'', m_response = PUndef, m_error = PUndef, m_fireAndForget = False,
       m_sourceDomain = ''https://evil.example'', m_id = ''x'' \<rparr>
     (addResponseListener ''init_a''
        \<lparr> r_name = ''init'', r_window = 1, r_domain = DStr ''https://b.example'', r_ack = False \<rparr>
        (empty_bus\<lparr>requestPromise := [''init_a'' \<mapsto> Pending]\<rparr>))
     = (addResponseListener ''init_a''
        \<lparr> r_name = ''init'', r_window = 1, r_domain = DStr ''https://b.example'', r_ack = False \<rparr>
        (empty_bus\<lparr>requestPromise := [''init_a'' \<mapsto> Pending]\<rparr>),
        Some (Error ''Response origin https://evil.example does not match domain https://b.example''))"
  using mismatched_origin_not_applied
    [of "\<lparr> m_type = RESPONSE, m_hash = ''init_a'', m_name = ''init'', m_ack = Some ACK_SUCCESS,
       m_data = PStr ''forged'', m_response = PUndef, m_error = PUndef, m_fireAndForget = False,
       m_sourceDomain = ''https://evil.example'', m_id = ''x'' \<rparr>"
      "addResponseListener ''init_a''
        \<lparr> r_name = ''init'', r_window = 1, r_domain = DStr ''https://b.example'', r_ack = False \<rparr>
        (empty_bus\<lparr>requestPromise := [''init_a'' \<mapsto> Pending]\<rparr>)"
      "\<lparr> r_name = ''init'', r_window = 1, r_domain = DStr ''https://b.example'', r_ack = False \<rparr>"
      "''https://evil.example''" page_host 1]
  by (simp add: getResponseListener_def addResponseListener_def WILDCARD_def)


text \<open>
  Claim C2 (a request with \<open>fireAndForget\<close> never enters the table of response
  listeners, and its promise resolves without waiting for ACK or RESPONSE). The code
  does not keep the first half: \<open>request\<close> calls \<open>addResponseListener\<close> before it
  looks at \<open>fireAndForget\<close>, and on this path nothing deletes the listener again. The
  theorem states what \<open>request\<close> does: when the name is not empty, the target is an
  open window and this window is not its ancestor or the target is ready, a request
  with \<open>fireAndForget\<close> returns with its promise resolved with no value, whether or
  not the send succeeded, and with its response listener in the table under its hash.
\<close>

theorem fireAndForget_resolves_and_files_listener:
  assumes faf: "o_fireAndForget opts"
    and name: "o_name opts \<noteq> []"
    and win: "target_window h (o_window opts) = Inr win"
    and opn: "\<not> h_closed h win"
    and rdy: "\<not> h_ancestor h win \<or> h_ready h win = Resolved ()"
  shows "\<exists>st'. request h opts st = (st', Inr (o_name opts @ ''_'' @ h_uid h (uid_calls st))) \<and>
           requestPromise st' (o_name opts @ ''_'' @ h_uid h (uid_calls st)) = Some (Resolved NoResponse) \<and>
           getResponseListener (o_name opts @ ''_'' @ h_uid h (uid_calls st)) st' =
             Some \<lparr> r_name = o_name opts, r_window = win,
                    r_domain = (case o_domain opts of
                                  None \<Rightarrow> DStr WILDCARD
                                | Some q \<Rightarrow> if domain_truthy q then q else DStr WILDCARD),
                    r_ack = False \<rparr>"
proof -
  let ?hash = "o_name opts @ ''_'' @ h_uid h (uid_calls st)"
  let ?dm = "case o_domain opts of None \<Rightarrow> DStr WILDCARD
             | Some q \<Rightarrow> if domain_truthy q then q else DStr WILDCARD"
  let ?st2 = "st\<lparr>uid_calls := Suc (uid_calls st),
                  requestPromise := (requestPromise st)(?hash \<mapsto> Pending),
                  requestPromises := (requestPromises st)(win \<mapsto>
                     (case requestPromises st win of Some ps \<Rightarrow> ps | None \<Rightarrow> []) @ [?hash])\<rparr>"
  have req: "request h opts st = (dispatch_request h ?hash win ?dm opts ?st2, Inr ?hash)"
    using name win opn rdy by (auto simp: request_def Let_def)
  let ?l = "\<lparr> r_name = o_name opts, r_window = win, r_domain = ?dm, r_ack = False \<rparr>"
  let ?st3 = "addResponseListener ?hash ?l ?st2"
  let ?msg = "\<lparr> m_type = REQUEST, m_hash = ?hash, m_name = o_name opts, m_ack = None,
                m_data = o_data opts, m_response = PUndef, m_error = PUndef,
                m_fireAndForget = o_fireAndForget opts, m_sourceDomain = [], m_id = [] \<rparr>"
  obtain st4 sent where snd: "sendMessage h win ?msg ?dm ?st3 = (st4, sent)"
    by (cases "sendMessage h win ?msg ?dm ?st3")
  have same: "same_tables ?st3 st4"
    using sendMessage_same[of ?st3 h win ?msg ?dm] snd by simp
  have d: "dispatch_request h ?hash win ?dm opts ?st2 = resolve_request ?hash NoResponse st4"
    using snd faf by (simp add: dispatch_request_def Let_def)
  have p4: "requestPromise st4 ?hash = Some Pending"
    and l4: "responseListeners st4 ?hash = Some ?l"
    using same by (simp_all add: same_tables_def addResponseListener_def)
  show ?thesis
    unfolding req d using p4 l4
    by (simp add: resolve_request_def getResponseListener_def)
qed

theorem fireAndForget_resolves_and_files_listener_witness:
  "o_fireAndForget \<lparr> o_name = ''init'', o_window = TWindow 1, o_domain = None, o_data = PNull,
                     o_fireAndForget = True \<rparr> \<and>
   target_window page_host (TWindow 1) = Inr 1 \<and>
   \<not> h_closed page_host 1 \<and> \<not> h_ancestor page_host 1 \<and>
   (\<exists>st'. request page_host
            \<lparr> o_name = ''init'', o_window = TWindow 1, o_domain = None, o_data = PNull,
              o_fireAndForget = True \<rparr> empty_bus = (st', Inr ''init_a'') \<and>
          requestPromise st' ''init_a'' = Some (Resolved NoResponse) \<and>
          getResponseListener ''init_a'' st' =
            Some \<lparr> r_name = ''init'', r_window = 1, r_domain = DStr WILDCARD, r_ack = False \<rparr>)"
  using fireAndForget_resolves_and_files_listener
    [of "\<lparr> o_name = ''init'', o_window = TWindow 1, o_domain = None, o_data = PNull,
          o_fireAndForget = True \<rparr>" page_host 1 empty_bus]
  by (simp add: target_window_def page_host_def empty_bus_def)

text \<open>
  The request \<open>{name: 'init', window: w, data: null, fireAndForget: true}\<close> on an empty
  bus: when \<open>request\<close> has returned, the table of response listeners has an entry
  under the hash of the request.
\<close>

theorem fireAndForget_listener_counterexample:
  "(case request page_host
           \<lparr> o_name = ''init'', o_window = TWindow 1, o_domain = None, o_data = PNull,
             o_fireAndForget = True \<rparr> empty_bus of
      (st', Inr hash) \<Rightarrow>
        responseListeners empty_bus hash = None \<and>
        responseListeners st' hash =
          Some \<lparr> r_name = ''init'', r_window = 1, r_domain = DStr WILDCARD, r_ack = False \<rparr>
    | (st', Inl e) \<Rightarrow> False)"
  by (simp add: request_def target_window_def page_host_def empty_bus_def Let_def
      dispatch_request_def addResponseListener_def sendMessage_def serializeMethods_def
      resolve_request_def)

text \<open>
  Every other way in which a request settles deletes its response listener: the
  handler of a RESPONSE from a matching origin does, and so does the rejection of the
  promise of the request. The window that receives a request with \<open>fireAndForget\<close>
  sends neither ACK nor RESPONSE, so the listener of such a request stays in the table.
\<close>

lemma fireAndForget_request_not_answered:
  "m_fireAndForget msg \<Longrightarrow> fst (receive_request h source origin msg st) = st"
  by (auto simp: receive_request_def reply_def Let_def split: sum.splits call_result.splits option.splits)

lemma rejected_request_removes_listener:
  "requestPromise st hash = Some Pending \<Longrightarrow>
     getResponseListener hash (reject_request hash e st) = None"
  by (simp add: reject_request_def getResponseListener_def deleteResponseListener_def)

lemma response_removes_listener:
  assumes "getResponseListener (m_hash msg) st = Some options"
    and "matchDomain (r_domain options) (DStr origin)"
  shows "getResponseListener (m_hash msg) (fst (receive_response h source origin msg st)) = None"
  using assms
  by (auto simp: receive_response_def getResponseListener_def deleteResponseListener_def Let_def
      respond_def resolve_request_def reject_request_def split: option.splits promise.splits)









end
